theory Spec2Isabelle
  imports Complex_Main "HOL-Library.Word"
begin

section \<open>Results, errors and panics\<close>

text \<open>
  A Go \<^verbatim>\<open>error\<close> is represented by its text (\<^verbatim>\<open>err.Error()\<close>): the only
  inspection the transaction code makes of an error is of that text. A call either
  returns a value, returns an error, or panics; a panic is not an error value and
  unwinds through every caller.
\<close>

type_synonym error = string

datatype 'a result = Ok 'a | Err error | Panic string

section \<open>Decimals and coins\<close>

text \<open>
  \<^verbatim>\<open>cosmossdk.Dec\<close> is a fixed-point decimal with 18 fractional digits held in a big
  integer: the value \<open>d\<close> stands for \<open>d / 10^18\<close>. \<^verbatim>\<open>cosmossdk.Int\<close> is a big
  integer of at most 256 bits. The operations below are those of the SDK that
  \<^verbatim>\<open>calculateFees\<close> calls; they are library code, modelled by what the library
  computes (truncating \<^verbatim>\<open>QuoRem\<close>, overflow panics on the bit length).
\<close>

record DecCoin =
  Denom :: string
  Amount :: int

record Coin =
  coin_denom :: string
  coin_amount :: int

definition precisionReuse :: int where
  "precisionReuse = 10 ^ 18"

definition fivePrecision :: int where
  "fivePrecision = 5 * 10 ^ 17"

text \<open>
  The bit lengths beyond which the SDK panics: 256 bits for an \<^verbatim>\<open>Int\<close>, and 59 bits
  more for the integer that holds a decimal. No property below depends on the two
  numbers.
\<close>

definition maxDecBitLen :: nat where
  "maxDecBitLen = 315"

definition MaxBitLen :: nat where
  "MaxBitLen = 256"

text \<open>\<^verbatim>\<open>x.BitLen() > n\<close> for a big integer: the absolute value needs more than \<open>n\<close> bits.\<close>

definition bitlen_exceeds :: "int \<Rightarrow> nat \<Rightarrow> bool" where
  "bitlen_exceeds x n = (2 ^ n \<le> \<bar>x\<bar>)"

text \<open>Go's \<^verbatim>\<open>big.Int.QuoRem\<close>: the quotient is truncated towards zero.\<close>

definition quo_trunc :: "int \<Rightarrow> int \<Rightarrow> int" where
  "quo_trunc a b = sgn a * sgn b * (\<bar>a\<bar> div \<bar>b\<bar>)"

definition rem_trunc :: "int \<Rightarrow> int \<Rightarrow> int" where
  "rem_trunc a b = a - b * quo_trunc a b"

definition MulInt64 :: "int \<Rightarrow> int \<Rightarrow> int result" where
  "MulInt64 d i =
     (let mul = d * i
      in if bitlen_exceeds mul maxDecBitLen then Panic ''Int overflow'' else Ok mul)"

definition Ceil :: "int \<Rightarrow> int" where
  "Ceil d =
     (let quo = quo_trunc d precisionReuse; rem = rem_trunc d precisionReuse
      in if rem = 0 then quo * precisionReuse
         else if rem < 0 then quo * precisionReuse
         else (quo + 1) * precisionReuse)"

text \<open>The least whole number of units that is not below the decimal \<open>d\<close>.\<close>

definition ceilUnits :: "int \<Rightarrow> int" where
  "ceilUnits d = - ((- d) div precisionReuse)"

definition chopPrecisionAndRound_pos :: "int \<Rightarrow> int" where
  "chopPrecisionAndRound_pos d =
     (let quo = quo_trunc d precisionReuse; rem = rem_trunc d precisionReuse
      in if rem = 0 then quo
         else if rem < fivePrecision then quo
         else if fivePrecision < rem then quo + 1
         else if even quo then quo
         else quo + 1)"

definition chopPrecisionAndRound :: "int \<Rightarrow> int" where
  "chopPrecisionAndRound d =
     (if d < 0 then - chopPrecisionAndRound_pos (- d) else chopPrecisionAndRound_pos d)"

definition RoundInt :: "int \<Rightarrow> int result" where
  "RoundInt d =
     (let i = chopPrecisionAndRound d
      in if bitlen_exceeds i MaxBitLen then Panic ''NewIntFromBigInt() out of bound'' else Ok i)"

text \<open>The SDK's default denomination pattern \<^verbatim>\<open>[a-zA-Z][a-zA-Z0-9/:._-]{2,127}\<close>.\<close>

definition char_between :: "char \<Rightarrow> char \<Rightarrow> char \<Rightarrow> bool" where
  "char_between lo hi c =
     ((of_char lo :: nat) \<le> of_char c \<and> (of_char c :: nat) \<le> of_char hi)"

definition is_letter :: "char \<Rightarrow> bool" where
  "is_letter c = (char_between CHR ''a'' CHR ''z'' c \<or> char_between CHR ''A'' CHR ''Z'' c)"

definition is_denom_char :: "char \<Rightarrow> bool" where
  "is_denom_char c =
     (is_letter c \<or> char_between CHR ''0'' CHR ''9'' c
      \<or> c = CHR ''/'' \<or> c = CHR '':'' \<or> c = CHR ''.'' \<or> c = CHR ''_'' \<or> c = CHR ''-'')"

definition ValidateDenom :: "string \<Rightarrow> bool" where
  "ValidateDenom d =
     (case d of
        [] \<Rightarrow> False
      | c # cs \<Rightarrow> is_letter c \<and> 2 \<le> length cs \<and> length cs \<le> 127 \<and> list_all is_denom_char cs)"

definition NewCoin :: "string \<Rightarrow> int \<Rightarrow> Coin result" where
  "NewCoin d a =
     (if \<not> ValidateDenom d then Panic ''invalid denom''
      else if a < 0 then Panic ''negative coin amount''
      else Ok \<lparr>coin_denom = d, coin_amount = a\<rparr>)"

section \<open>Fee calculation\<close>

text \<open>
  One iteration of the loop of \<^verbatim>\<open>calculateFees\<close>:
  \<^verbatim>\<open>fee := price.Amount.MulInt64(int64(gasLimit))\<close>, then
  \<^verbatim>\<open>cosmossdk.NewCoin(price.Denom, fee.Ceil().RoundInt())\<close>. The conversion
  \<^verbatim>\<open>int64(gasLimit)\<close> reinterprets the 64 bits as a signed number.
\<close>

definition feeCoin :: "DecCoin \<Rightarrow> 64 word \<Rightarrow> Coin result" where
  "feeCoin price gasLimit =
     (case MulInt64 (Amount price) (sint gasLimit) of
        Panic p \<Rightarrow> Panic p
      | Err e \<Rightarrow> Err e
      | Ok fee \<Rightarrow>
          (case RoundInt (Ceil fee) of
             Panic p \<Rightarrow> Panic p
           | Err e \<Rightarrow> Err e
           | Ok a \<Rightarrow> NewCoin (Denom price) a))"

fun calculateFees :: "DecCoin list \<Rightarrow> 64 word \<Rightarrow> Coin list result" where
  "calculateFees [] gasLimit = Ok []"
| "calculateFees (price # gasPrices) gasLimit =
     (case feeCoin price gasLimit of
        Panic p \<Rightarrow> Panic p
      | Err e \<Rightarrow> Err e
      | Ok c \<Rightarrow>
          (case calculateFees gasPrices gasLimit of
             Panic p \<Rightarrow> Panic p
           | Err e \<Rightarrow> Err e
           | Ok cs \<Rightarrow> Ok (c # cs)))"

section \<open>Error classification\<close>

text \<open>
  \<^verbatim>\<open>strings.ToLower\<close> on the ASCII letters, \<^verbatim>\<open>strings.HasPrefix\<close> and
  \<^verbatim>\<open>strings.Contains\<close>. Error texts are byte strings; bytes outside \<open>A\<close>..\<open>Z\<close>
  are left as they are.
\<close>

definition toLowerChar :: "char \<Rightarrow> char" where
  "toLowerChar c =
     (case map_of (zip ''ABCDEFGHIJKLMNOPQRSTUVWXYZ'' ''abcdefghijklmnopqrstuvwxyz'') c of
        Some l \<Rightarrow> l
      | None \<Rightarrow> c)"

definition ToLower :: "string \<Rightarrow> string" where
  "ToLower s = map toLowerChar s"

fun HasPrefix :: "string \<Rightarrow> string \<Rightarrow> bool" where
  "HasPrefix s [] = True"
| "HasPrefix [] (p # ps) = False"
| "HasPrefix (c # cs) (p # ps) = (c = p \<and> HasPrefix cs ps)"

fun Contains :: "string \<Rightarrow> string \<Rightarrow> bool" where
  "Contains [] substr = (substr = [])"
| "Contains (c # cs) substr = (HasPrefix (c # cs) substr \<or> Contains cs substr)"

definition ErrNotFound :: error where
  "ErrNotFound = ''not found''"

text \<open>\<^verbatim>\<open>fmt.Errorf("%w: %v", ErrNotFound, err)\<close>\<close>

definition newErrNotFound :: "error \<Rightarrow> error" where
  "newErrNotFound err = ErrNotFound @ '': '' @ err"

definition IsTxInMempoolCacheError :: "error \<Rightarrow> bool" where
  "IsTxInMempoolCacheError err = Contains (ToLower err) ''tx already exists in cache''"

definition IsWrongSequenceError :: "error \<Rightarrow> bool" where
  "IsWrongSequenceError err = Contains (ToLower err) ''incorrect account sequence''"

text \<open>
  \<^verbatim>\<open>fmt.Errorf(prefix + "%w", err)\<close> applied to the error of a call: a value and a
  panic pass through, the text of an error gets the prefix.
\<close>

fun wrapErr :: "string \<Rightarrow> 'a result \<Rightarrow> 'a result" where
  "wrapErr pre (Ok v) = Ok v"
| "wrapErr pre (Err e) = Err (pre @ e)"
| "wrapErr pre (Panic p) = Panic p"

text \<open>\<^verbatim>\<open>%d\<close> of an unsigned number.\<close>

definition digitChar :: "nat \<Rightarrow> char" where
  "digitChar d = ''0123456789'' ! d"

fun showNat :: "nat \<Rightarrow> string" where
  "showNat n = (if n < 10 then [digitChar n] else showNat (n div 10) @ [digitChar (n mod 10)])"

declare showNat.simps [simp del]

section \<open>The retry loop\<close>

text \<open>
  \<^verbatim>\<open>retry.Do\<close> of the retry library, as the transaction code configures it: a
  bounded attempt count, a fixed delay, \<^verbatim>\<open>LastErrorOnly(true)\<close> and a
  \<^verbatim>\<open>RetryIf\<close> predicate; no context is passed to it, so it is never cancelled.
  The library is not part of the repository. Its loop calls the function; a
  \<^verbatim>\<open>nil\<close> error returns at once; an error that \<^verbatim>\<open>RetryIf\<close> rejects, or the
  error of the last permitted attempt, ends the loop and is returned; otherwise the
  loop sleeps for the delay and calls again. A panic of the function is not
  recovered. The state \<open>'st\<close> holds the variables the closure assigns and the outside
  world. \<open>retry_run\<close> takes the number of attempts that may still follow the next one.
  An attempt count of 0 puts the library in its unbounded mode, which is not modelled
  (there \<open>retry_Do\<close> is one call): \<^verbatim>\<open>TxConfig.Validate\<close> rejects a count of 0, and
  every theorem about the loop below is stated for attempts within a positive count.
\<close>

fun retry_run ::
  "('st \<Rightarrow> unit result \<times> 'st) \<Rightarrow> (error \<Rightarrow> bool) \<Rightarrow> ('st \<Rightarrow> 'st) \<Rightarrow> nat \<Rightarrow> 'st
     \<Rightarrow> unit result \<times> 'st" where
  "retry_run retryableFunc retryIf sleep 0 st = retryableFunc st"
| "retry_run retryableFunc retryIf sleep (Suc k) st =
     (case retryableFunc st of
        (Ok u, st') \<Rightarrow> (Ok u, st')
      | (Panic p, st') \<Rightarrow> (Panic p, st')
      | (Err e, st') \<Rightarrow>
          (if retryIf e then retry_run retryableFunc retryIf sleep k (sleep st')
           else (Err e, st')))"

definition retry_Do ::
  "('st \<Rightarrow> unit result \<times> 'st) \<Rightarrow> nat \<Rightarrow> (error \<Rightarrow> bool) \<Rightarrow> ('st \<Rightarrow> 'st) \<Rightarrow> 'st
     \<Rightarrow> unit result \<times> 'st" where
  "retry_Do retryableFunc attempts retryIf sleep st =
     retry_run retryableFunc retryIf sleep (attempts - 1) st"

section \<open>Data of the transaction lifecycle\<close>

type_synonym bytes = "8 word list"

text \<open>An \<^verbatim>\<open>AccAddress\<close> is a byte slice; \<^verbatim>\<open>nil\<close> and the empty slice are both \<open>[]\<close>.\<close>

type_synonym AccAddress = bytes

definition Empty :: "AccAddress \<Rightarrow> bool" where
  "Empty aa = (length aa = 0)"

text \<open>
  A message is a domain message, opaque to the client, or the \<^verbatim>\<open>authz.MsgExec\<close>
  that \<^verbatim>\<open>authz.NewMsgExec(grantee, msgs)\<close> builds. The signer of a \<^verbatim>\<open>MsgExec\<close>
  is its grantee.
\<close>

datatype Msg = DomainMsg string | MsgExec AccAddress "Msg list"

definition NewMsgExec :: "AccAddress \<Rightarrow> Msg list \<Rightarrow> Msg" where
  "NewMsgExec grantee msgs = MsgExec grantee msgs"

fun MsgExec_GetSigners :: "Msg \<Rightarrow> AccAddress list" where
  "MsgExec_GetSigners (MsgExec grantee msgs) = [grantee]"
| "MsgExec_GetSigners (DomainMsg m) = []"

record Account =
  AccountNumber :: "64 word"
  Sequence :: "64 word"

datatype SignMode = SIGN_MODE_DIRECT

record SignatureV2 =
  sig_PubKey :: bytes
  sig_SignMode :: SignMode
  sig_Signature :: bytes
  sig_Sequence :: "64 word"

record SignerData =
  sd_ChainID :: string
  sd_AccountNumber :: "64 word"
  sd_Sequence :: "64 word"

text \<open>The content of a \<^verbatim>\<open>client.TxBuilder\<close>.\<close>

record TxBuilder =
  tx_Msgs :: "Msg list"
  tx_FeeAmount :: "Coin list"
  tx_FeeGranter :: AccAddress
  tx_GasLimit :: "64 word"
  tx_Memo :: string
  tx_TimeoutHeight :: "64 word"
  tx_Signatures :: "SignatureV2 list"

definition NewTxBuilder :: TxBuilder where
  "NewTxBuilder =
     \<lparr>tx_Msgs = [], tx_FeeAmount = [], tx_FeeGranter = [], tx_GasLimit = 0, tx_Memo = [],
      tx_TimeoutHeight = 0, tx_Signatures = []\<rparr>"

record ResultBroadcastTx =
  rb_Code :: "32 word"
  rb_Data :: bytes
  rb_Log :: string
  rb_Codespace :: string
  rb_Hash :: bytes

record ResultTx =
  rt_Hash :: bytes
  rt_Height :: int
  rt_Code :: "32 word"
  rt_Codespace :: string
  rt_Log :: string
  rt_Events :: "string list"

definition CodeTypeOK :: "32 word" where
  "CodeTypeOK = 0"

definition IsOK :: "ResultTx \<Rightarrow> bool" where
  "IsOK r = (rt_Code r = CodeTypeOK)"

text \<open>\<^verbatim>\<open>tx.SimulateResponse\<close>: the \<^verbatim>\<open>GasInfo\<close> pointer, with its \<^verbatim>\<open>GasUsed\<close>.\<close>

type_synonym SimulateResponse = "64 word option"

section \<open>The keyring and the client\<close>

record KeyRecord =
  GetPubKey :: "bytes result"
  GetAddress :: "AccAddress result"

text \<open>
  What \<^verbatim>\<open>keyring.Key(name)\<close> returns: a record, the error \<^verbatim>\<open>ErrKeyNotFound\<close>, or
  another error.
\<close>

datatype key_lookup = KeyFound KeyRecord | KeyNotFound | KeyLookupError error

record Keyring =
  kr_Key :: "string \<Rightarrow> key_lookup"
  kr_Sign :: "string \<Rightarrow> bytes \<Rightarrow> (bytes \<times> bytes) result"

text \<open>
  The fields of \<^verbatim>\<open>Client\<close> that the transaction code reads. Durations are in
  nanoseconds. \<open>txGasAdjustment\<close> is a \<^verbatim>\<open>float64\<close> in the source, used once, in
  \<^verbatim>\<open>uint64(c.txGasAdjustment * float64(gasUsed))\<close>; the field holds that function of
  \<open>gasUsed\<close>, floating-point arithmetic being outside this development.
\<close>

record Client =
  keyring :: Keyring
  queryProve :: bool
  rpcChainID :: string
  txAuthzGranterAddr :: AccAddress
  txBroadcastRetryAttempts :: nat
  txBroadcastRetryDelay :: int
  txFeeGranterAddr :: AccAddress
  txFees :: "Coin list"
  txFromName :: string
  txGasAdjustment :: "64 word \<Rightarrow> 64 word"
  txGasPrices :: "DecCoin list"
  txGas :: "64 word"
  txMemo :: string
  txQueryRetryAttempts :: nat
  txQueryRetryDelay :: int
  txSimulateAndExecute :: bool
  txTimeoutHeight :: "64 word"

section \<open>The outside world\<close>

text \<open>
  Every call that leaves the client is recorded, in order, in the history. The node
  and the codec are given by an environment: the answer to a network call may depend
  on the whole history before it, so that a node may answer the same request
  differently on a later attempt.
\<close>

datatype event =
    EvValidate Msg
  | EvAccount AccAddress
  | EvEncode TxBuilder
  | EvSimulate bytes
  | EvBroadcast bytes
  | EvTx bytes bool
  | EvSleep int

type_synonym world = "event list"

text \<open>
  \<^verbatim>\<open>Client.Account\<close> and \<^verbatim>\<open>Client.QueryGRPC\<close> are not among the sources and are
  taken as parameters: \<open>AccountRPC\<close> is the account lookup, which answers with the
  account (its number and sequence), with no account, or with an error, and
  \<open>SimulateRPC\<close> is the dispatch of the simulation request. The other fields are the
  methods of the SDK and of the RPC client that the code calls.
\<close>

record env =
  ValidateBasic :: "Msg \<Rightarrow> error option"
  SetMsgs :: "Msg list \<Rightarrow> error option"
  SetSignatures :: "SignatureV2 \<Rightarrow> error option"
  TxEncoder :: "TxBuilder \<Rightarrow> bytes result"
  GetSignBytes :: "SignMode \<Rightarrow> SignerData \<Rightarrow> TxBuilder \<Rightarrow> bytes result"
  NewWithTimeout :: "error option"
  AccAddress_String :: "AccAddress \<Rightarrow> string"
  AccountRPC :: "world \<Rightarrow> AccAddress \<Rightarrow> Account option result"
  SimulateRPC :: "world \<Rightarrow> bytes \<Rightarrow> SimulateResponse result"
  BroadcastRPC :: "world \<Rightarrow> bytes \<Rightarrow> ResultBroadcastTx result"
  TxRPC :: "world \<Rightarrow> bytes \<Rightarrow> bool \<Rightarrow> ResultTx result"

text \<open>Sequencing of calls: a value goes on, an error or a panic returns at once.\<close>

fun andThen ::
  "'a result \<times> world \<Rightarrow> ('a \<Rightarrow> world \<Rightarrow> 'b result \<times> world) \<Rightarrow> 'b result \<times> world" where
  "andThen (Ok v, s) f = f v s"
| "andThen (Err e, s) f = (Err e, s)"
| "andThen (Panic p, s) f = (Panic p, s)"

fun errOf :: "error option \<Rightarrow> unit result" where
  "errOf None = Ok ()"
| "errOf (Some e) = Err e"

definition nilDereference :: string where
  "nilDereference = ''runtime error: invalid memory address or nil pointer dereference''"

section \<open>Keys and the signer address\<close>

definition Key :: "Client \<Rightarrow> string \<Rightarrow> KeyRecord option result" where
  "Key c name =
     (let name = (if name = [] then txFromName c else name)
      in case kr_Key (keyring c) name of
           KeyFound key \<Rightarrow> Ok (Some key)
         | KeyNotFound \<Rightarrow> Ok None
         | KeyLookupError err \<Rightarrow> Err (''failed to retrieve key from keyring: '' @ err))"

definition KeyAddr :: "Client \<Rightarrow> string \<Rightarrow> AccAddress result" where
  "KeyAddr c name =
     (case wrapErr ''failed to retrieve key: '' (Key c name) of
        Err e \<Rightarrow> Err e
      | Panic p \<Rightarrow> Panic p
      | Ok None \<Rightarrow> Ok []
      | Ok (Some key) \<Rightarrow> wrapErr ''failed to get addr from key: '' (GetAddress key))"

definition Sign :: "Client \<Rightarrow> string \<Rightarrow> bytes \<Rightarrow> (bytes \<times> bytes) result" where
  "Sign c name buf =
     (let name = (if name = [] then txFromName c else name)
      in wrapErr ''failed to sign data: '' (kr_Sign (keyring c) name buf))"

definition MsgFromAddr :: "Client \<Rightarrow> AccAddress result" where
  "MsgFromAddr c =
     (if \<not> Empty (txAuthzGranterAddr c) then Ok (txAuthzGranterAddr c)
      else wrapErr ''failed to get key addr for tx_from_name:'' (KeyAddr c (txFromName c)))"

section \<open>Preparing and signing a transaction\<close>

definition IsZero :: "DecCoin list \<Rightarrow> bool" where
  "IsZero coins = list_all (\<lambda>coin. Amount coin = 0) coins"

text \<open>
  \<^verbatim>\<open>if !c.txGasPrices.IsZero() { fees := calculateFees(c.txGasPrices, gasLimit);
  txb.SetFeeAmount(fees) }\<close>, which \<^verbatim>\<open>prepareTx\<close> runs for the configured gas limit and
  again for the simulated one.
\<close>

definition setGasPriceFees :: "Client \<Rightarrow> 64 word \<Rightarrow> TxBuilder \<Rightarrow> TxBuilder result" where
  "setGasPriceFees c gasLimit txb =
     (if \<not> IsZero (txGasPrices c) then
        (case calculateFees (txGasPrices c) gasLimit of
           Ok fees \<Rightarrow> Ok (txb\<lparr>tx_FeeAmount := fees\<rparr>)
         | Err e \<Rightarrow> Err e
         | Panic p \<Rightarrow> Panic p)
      else Ok txb)"

definition encodeTx :: "env \<Rightarrow> TxBuilder \<Rightarrow> world \<Rightarrow> bytes result \<times> world" where
  "encodeTx env txb s = (TxEncoder env txb, s @ [EvEncode txb])"

definition Simulate :: "env \<Rightarrow> bytes \<Rightarrow> world \<Rightarrow> SimulateResponse result \<times> world" where
  "Simulate env buf s =
     (wrapErr ''failed to query simulate: '' (SimulateRPC env s buf), s @ [EvSimulate buf])"

definition gasSimulateTx :: "Client \<Rightarrow> env \<Rightarrow> TxBuilder \<Rightarrow> world \<Rightarrow> 64 word result \<times> world" where
  "gasSimulateTx c env txb s =
     andThen (apfst (wrapErr ''failed to encode tx: '') (encodeTx env txb s)) (\<lambda>buf s.
     andThen (apfst (wrapErr ''failed to simulate tx: '') (Simulate env buf s)) (\<lambda>res s.
       (case res of
          None \<Rightarrow> (Panic nilDereference, s)
        | Some gasUsed \<Rightarrow> (Ok (txGasAdjustment c gasUsed), s))))"

definition placeholderSignature :: "bytes \<Rightarrow> Account \<Rightarrow> SignatureV2" where
  "placeholderSignature pubKey acc =
     \<lparr>sig_PubKey = pubKey, sig_SignMode = SIGN_MODE_DIRECT, sig_Signature = [],
      sig_Sequence = Sequence acc\<rparr>"

definition prepareTx ::
  "Client \<Rightarrow> env \<Rightarrow> KeyRecord \<Rightarrow> Account \<Rightarrow> Msg list \<Rightarrow> world \<Rightarrow> TxBuilder result \<times> world" where
  "prepareTx c env key acc msgs s =
     andThen (wrapErr ''failed to set messages: '' (errOf (SetMsgs env msgs)), s) (\<lambda>u s.
     let txb = NewTxBuilder
           \<lparr>tx_Msgs := msgs, tx_FeeAmount := txFees c, tx_FeeGranter := txFeeGranterAddr c,
            tx_GasLimit := txGas c, tx_Memo := txMemo c, tx_TimeoutHeight := txTimeoutHeight c\<rparr>
     in
     andThen (setGasPriceFees c (txGas c) txb, s) (\<lambda>txb s.
     andThen (wrapErr ''failed to get public key from key: '' (GetPubKey key), s) (\<lambda>pubKey s.
     let signature = placeholderSignature pubKey acc in
     andThen (wrapErr ''failed to set initial signatures: ''
                (errOf (SetSignatures env signature)), s) (\<lambda>u s.
     let txb = txb\<lparr>tx_Signatures := [signature]\<rparr> in
     if txSimulateAndExecute c then
       andThen (apfst (wrapErr ''failed to simulate tx for gas estimation: '')
                  (gasSimulateTx c env txb s)) (\<lambda>gasLimit s.
       andThen (setGasPriceFees c gasLimit (txb\<lparr>tx_GasLimit := gasLimit\<rparr>), s) (\<lambda>txb s.
         (Ok txb, s)))
     else (Ok txb, s)))))"

definition signTx ::
  "Client \<Rightarrow> env \<Rightarrow> TxBuilder \<Rightarrow> KeyRecord \<Rightarrow> Account \<Rightarrow> world \<Rightarrow> TxBuilder result \<times> world" where
  "signTx c env txb key acc s =
     andThen (wrapErr ''failed to get public key from key: '' (GetPubKey key), s) (\<lambda>pubKey s.
     let signature = placeholderSignature pubKey acc in
     andThen (wrapErr ''failed to set initial signatures: ''
                (errOf (SetSignatures env signature)), s) (\<lambda>u s.
     let txb = txb\<lparr>tx_Signatures := [signature]\<rparr>;
         signerData = \<lparr>sd_ChainID = rpcChainID c, sd_AccountNumber = AccountNumber acc,
                       sd_Sequence = Sequence acc\<rparr>
     in
     andThen (wrapErr ''failed to get tx sign bytes: ''
                (GetSignBytes env SIGN_MODE_DIRECT signerData txb), s) (\<lambda>buf s.
     andThen (wrapErr ''failed to sign tx bytes: '' (Sign c (txFromName c) buf), s) (\<lambda>signed s.
     let signature = signature\<lparr>sig_Signature := fst signed\<rparr> in
     andThen (wrapErr ''failed to set updated signatures: ''
                (errOf (SetSignatures env signature)), s) (\<lambda>u s.
       (Ok (txb\<lparr>tx_Signatures := [signature]\<rparr>), s))))))"

section \<open>Broadcasting\<close>

text \<open>The loop \<^verbatim>\<open>for i, msg := range msgs\<close> of \<^verbatim>\<open>broadcastTxSync\<close>, from index \<open>i\<close>.\<close>

fun validateMsgs :: "env \<Rightarrow> nat \<Rightarrow> Msg list \<Rightarrow> world \<Rightarrow> unit result \<times> world" where
  "validateMsgs env i [] s = (Ok (), s)"
| "validateMsgs env i (msg # msgs) s =
     (case ValidateBasic env msg of
        Some err \<Rightarrow>
          (Err (''failed to validate message at index '' @ showNat i @ '': '' @ err),
           s @ [EvValidate msg])
      | None \<Rightarrow> validateMsgs env (Suc i) msgs (s @ [EvValidate msg]))"

definition AccountQuery :: "env \<Rightarrow> AccAddress \<Rightarrow> world \<Rightarrow> Account option result \<times> world" where
  "AccountQuery env addr s = (AccountRPC env s addr, s @ [EvAccount addr])"

definition HTTP :: "env \<Rightarrow> unit result" where
  "HTTP env = errOf (NewWithTimeout env)"

definition http_BroadcastTxSync ::
  "env \<Rightarrow> bytes \<Rightarrow> world \<Rightarrow> ResultBroadcastTx result \<times> world" where
  "http_BroadcastTxSync env buf s = (BroadcastRPC env s buf, s @ [EvBroadcast buf])"

definition http_Tx :: "env \<Rightarrow> bytes \<Rightarrow> bool \<Rightarrow> world \<Rightarrow> ResultTx result \<times> world" where
  "http_Tx env hash prove s = (TxRPC env s hash prove, s @ [EvTx hash prove])"

definition broadcastTxSync ::
  "Client \<Rightarrow> env \<Rightarrow> Msg list \<Rightarrow> world \<Rightarrow> ResultBroadcastTx result \<times> world" where
  "broadcastTxSync c env msgs s =
     andThen (wrapErr ''failed to get key: '' (Key c (txFromName c)), s) (\<lambda>key s.
     case key of
       None \<Rightarrow> (Err (newErrNotFound (''key '' @ txFromName c @ '' does not exist'')), s)
     | Some key \<Rightarrow>
     andThen (wrapErr ''failed to get addr from key: '' (GetAddress key), s) (\<lambda>addr s.
     let msgs = (if \<not> Empty (txAuthzGranterAddr c) then [NewMsgExec addr msgs] else msgs) in
     andThen (validateMsgs env 0 msgs s) (\<lambda>u s.
     andThen (apfst (wrapErr ''failed to query account: '') (AccountQuery env addr s)) (\<lambda>acc s.
     case acc of
       None \<Rightarrow>
         (Err (newErrNotFound (''acconut '' @ AccAddress_String env addr @ '' does not exist'')),
          s)
     | Some acc \<Rightarrow>
     andThen (apfst (wrapErr ''failed to prepare tx: '') (prepareTx c env key acc msgs s)) (\<lambda>txb s.
     andThen (apfst (wrapErr ''failed to sign tx: '') (signTx c env txb key acc s)) (\<lambda>txb s.
     andThen (apfst (wrapErr ''failed to encode tx: '') (encodeTx env txb s)) (\<lambda>buf s.
     andThen (wrapErr ''failed to create rpc client: '' (HTTP env), s) (\<lambda>u s.
     andThen (apfst (wrapErr ''failed to sync broadcast tx: '')
                (http_BroadcastTxSync env buf s)) (\<lambda>res s.
       (Ok res, s))))))))))"

text \<open>
  The closure \<^verbatim>\<open>retryFunc\<close> of \<^verbatim>\<open>BroadcastTxSync\<close> assigns the captured variable
  \<^verbatim>\<open>resp\<close>; the state of the loop is that variable and the world.
\<close>

definition broadcastRetryFunc ::
  "Client \<Rightarrow> env \<Rightarrow> Msg list \<Rightarrow> ResultBroadcastTx option \<times> world
     \<Rightarrow> unit result \<times> (ResultBroadcastTx option \<times> world)" where
  "broadcastRetryFunc c env msgs st =
     (case broadcastTxSync c env msgs (snd st) of
        (Ok resp, s) \<Rightarrow> (Ok (), (Some resp, s))
      | (Err err, s) \<Rightarrow>
          (if IsTxInMempoolCacheError err then (Ok (), (None, s)) else (Err err, (None, s)))
      | (Panic p, s) \<Rightarrow> (Panic p, (fst st, s)))"

definition broadcastRetryIfFunc :: "error \<Rightarrow> bool" where
  "broadcastRetryIfFunc err = (if IsWrongSequenceError err then True else False)"

definition sleepFor :: "int \<Rightarrow> 'v \<times> world \<Rightarrow> 'v \<times> world" where
  "sleepFor d st = (fst st, snd st @ [EvSleep d])"

definition BroadcastTxSync ::
  "Client \<Rightarrow> env \<Rightarrow> Msg list \<Rightarrow> world \<Rightarrow> ResultBroadcastTx option result \<times> world" where
  "BroadcastTxSync c env msgs s =
     (case retry_Do (broadcastRetryFunc c env msgs) (txBroadcastRetryAttempts c)
             broadcastRetryIfFunc (sleepFor (txBroadcastRetryDelay c)) (None, s) of
        (Ok u, (resp, s')) \<Rightarrow> (Ok resp, s')
      | (Err err, (resp, s')) \<Rightarrow> (Err (''tx sync broadcast failed after retries: '' @ err), s')
      | (Panic p, (resp, s')) \<Rightarrow> (Panic p, s'))"

section \<open>Waiting for inclusion\<close>

definition tx :: "Client \<Rightarrow> env \<Rightarrow> bytes \<Rightarrow> world \<Rightarrow> ResultTx result \<times> world" where
  "tx c env hash s =
     andThen (wrapErr ''failed to create rpc client: '' (HTTP env), s) (\<lambda>u s.
     andThen (apfst (wrapErr ''failed to query tx: '') (http_Tx env hash (queryProve c) s)) (\<lambda>res s.
       (Ok res, s)))"

definition txRetryFunc ::
  "Client \<Rightarrow> env \<Rightarrow> bytes \<Rightarrow> ResultTx option \<times> world
     \<Rightarrow> unit result \<times> (ResultTx option \<times> world)" where
  "txRetryFunc c env hash st =
     (case tx c env hash (snd st) of
        (Ok result, s) \<Rightarrow> (Ok (), (Some result, s))
      | (Err err, s) \<Rightarrow> (Err err, (None, s))
      | (Panic p, s) \<Rightarrow> (Panic p, (fst st, s)))"

definition txRetryIfFunc :: "error \<Rightarrow> bool" where
  "txRetryIfFunc err = True"

definition Tx :: "Client \<Rightarrow> env \<Rightarrow> bytes \<Rightarrow> world \<Rightarrow> ResultTx option result \<times> world" where
  "Tx c env hash s =
     (case retry_Do (txRetryFunc c env hash) (txQueryRetryAttempts c)
             txRetryIfFunc (sleepFor (txQueryRetryDelay c)) (None, s) of
        (Ok u, (result, s')) \<Rightarrow> (Ok result, s')
      | (Err err, (result, s')) \<Rightarrow> (Err (''tx query failed after retries: '' @ err), s')
      | (Panic p, (result, s')) \<Rightarrow> (Panic p, s'))"

section \<open>Broadcast and wait\<close>

text \<open>
  \<^verbatim>\<open>BroadcastTxBlock\<close> returns two pointers and an error, or panics. Reading a field
  through a \<^verbatim>\<open>nil\<close> pointer is a run-time panic.
\<close>

type_synonym block_return = "ResultBroadcastTx option \<times> ResultTx option \<times> error option"

definition codeError :: "32 word \<Rightarrow> string \<Rightarrow> string \<Rightarrow> error" where
  "codeError code codespace logtext =
     ''code='' @ showNat (unat code) @ '', codespace='' @ codespace @ '', log='' @ logtext"

definition BroadcastTxBlock ::
  "Client \<Rightarrow> env \<Rightarrow> Msg list \<Rightarrow> world \<Rightarrow> block_return result \<times> world" where
  "BroadcastTxBlock c env msgs s =
     (case BroadcastTxSync c env msgs s of
        (Panic p, s1) \<Rightarrow> (Panic p, s1)
      | (Err err, s1) \<Rightarrow> (Ok (None, None, Some err), s1)
      | (Ok None, s1) \<Rightarrow> (Panic nilDereference, s1)
      | (Ok (Some resp), s1) \<Rightarrow>
          (if rb_Code resp \<noteq> CodeTypeOK then
             (Ok (Some resp, None,
                  Some (''tx sync broadcast failed: ''
                        @ codeError (rb_Code resp) (rb_Codespace resp) (rb_Log resp))), s1)
           else
             (case Tx c env (rb_Hash resp) s1 of
                (Panic p, s2) \<Rightarrow> (Panic p, s2)
              | (Err err, s2) \<Rightarrow> (Ok (Some resp, None, Some err), s2)
              | (Ok None, s2) \<Rightarrow> (Panic nilDereference, s2)
              | (Ok (Some res), s2) \<Rightarrow>
                  (if \<not> IsOK res then
                     (Ok (Some resp, Some res,
                          Some (''tx failed: ''
                                @ codeError (rt_Code res) (rt_Codespace res) (rt_Log res))), s2)
                   else (Ok (Some resp, Some res, None), s2)))))"

section \<open>Notions used to state the properties\<close>

text \<open>
  The world in which attempt number \<open>i\<close> (counted from 0) of a retried call begins,
  when each of the earlier attempts has been followed by the delay.
\<close>

fun attemptWorld :: "(world \<Rightarrow> 'a result \<times> world) \<Rightarrow> int \<Rightarrow> world \<Rightarrow> nat \<Rightarrow> world" where
  "attemptWorld attempt delay s 0 = s"
| "attemptWorld attempt delay s (Suc i) =
     snd (attempt (attemptWorld attempt delay s i)) @ [EvSleep delay]"

text \<open>
  The common shape of the two closures passed to \<^verbatim>\<open>retry.Do\<close>: run the attempt, keep
  its value in the captured variable, and return its error unless \<open>absorb\<close> accepts it.
\<close>

definition closureFunc ::
  "(world \<Rightarrow> 'a result \<times> world) \<Rightarrow> (error \<Rightarrow> bool) \<Rightarrow> 'a option \<times> world
     \<Rightarrow> unit result \<times> ('a option \<times> world)" where
  "closureFunc attempt absorb st =
     (case attempt (snd st) of
        (Ok v, s) \<Rightarrow> (Ok (), (Some v, s))
      | (Err err, s) \<Rightarrow> (if absorb err then (Ok (), (None, s)) else (Err err, (None, s)))
      | (Panic p, s) \<Rightarrow> (Panic p, (fst st, s)))"

text \<open>
  The history \<open>s'\<close> continues the history \<open>s\<close>, and every event added satisfies \<open>P\<close>.
\<close>

definition emits :: "(event \<Rightarrow> bool) \<Rightarrow> world \<Rightarrow> world \<Rightarrow> bool" where
  "emits P s s' = (take (length s) s' = s \<and> list_all P (drop (length s) s'))"


text \<open>
  What one attempt made for the signing address \<open>addr\<close> with the message list \<open>msgs\<close>
  may do: validate a message of the list, look up the account of \<open>addr\<close>, encode a
  transaction that carries the list, simulate and broadcast.
\<close>

fun attemptEvent :: "AccAddress \<Rightarrow> Msg list \<Rightarrow> event \<Rightarrow> bool" where
  "attemptEvent addr msgs (EvValidate m) = (m \<in> set msgs)"
| "attemptEvent addr msgs (EvAccount a) = (a = addr)"
| "attemptEvent addr msgs (EvEncode txb) = (tx_Msgs txb = msgs)"
| "attemptEvent addr msgs (EvSimulate buf) = True"
| "attemptEvent addr msgs (EvBroadcast buf) = True"
| "attemptEvent addr msgs (EvTx hash prove) = False"
| "attemptEvent addr msgs (EvSleep d) = False"

text \<open>
  The worlds in which the attempts of \<^verbatim>\<open>BroadcastTxSync\<close> and of \<^verbatim>\<open>Tx\<close> begin, and
  the condition that the attempts before number \<open>i\<close> all failed with an error that
  the loop retries.
\<close>

definition broadcastAttemptWorld :: "Client \<Rightarrow> env \<Rightarrow> Msg list \<Rightarrow> world \<Rightarrow> nat \<Rightarrow> world" where
  "broadcastAttemptWorld c env msgs s i =
     attemptWorld (broadcastTxSync c env msgs) (txBroadcastRetryDelay c) s i"


definition failedWith :: "(error \<Rightarrow> bool) \<Rightarrow> 'a result \<Rightarrow> bool" where
  "failedWith P r = (case r of Err e \<Rightarrow> P e | Ok v \<Rightarrow> False | Panic p \<Rightarrow> False)"

definition sequenceRetries :: "Client \<Rightarrow> env \<Rightarrow> Msg list \<Rightarrow> world \<Rightarrow> nat \<Rightarrow> bool" where
  "sequenceRetries c env msgs s i =
     list_all
       (\<lambda>j. failedWith (\<lambda>e. \<not> IsTxInMempoolCacheError e \<and> IsWrongSequenceError e)
              (fst (broadcastTxSync c env msgs (broadcastAttemptWorld c env msgs s j))))
       [0..<i]"


section \<open>A scripted node\<close>

text \<open>
  A client with one key, and a node whose answers to the successive broadcasts and
  transaction queries are given by two lists; the account sequence it reports starts
  at 5.
\<close>

fun isBroadcast :: "event \<Rightarrow> bool" where
  "isBroadcast (EvBroadcast buf) = True"
| "isBroadcast ev = False"

fun isTxQuery :: "event \<Rightarrow> bool" where
  "isTxQuery (EvTx hash prove) = True"
| "isTxQuery ev = False"


fun answer :: "'a result list \<Rightarrow> nat \<Rightarrow> 'a result" where
  "answer [] n = Err ''connection refused''"
| "answer (r # rs) 0 = r"
| "answer (r # rs) (Suc n) = answer rs n"

definition scriptedEnv :: "ResultBroadcastTx result list \<Rightarrow> ResultTx result list \<Rightarrow> env" where
  "scriptedEnv broadcasts queries =
     \<lparr>ValidateBasic = (\<lambda>msg. None),
      SetMsgs = (\<lambda>msgs. None),
      SetSignatures = (\<lambda>signature. None),
      TxEncoder = (\<lambda>txb. Ok [1]),
      GetSignBytes = (\<lambda>mode signerData txb. Ok [2]),
      NewWithTimeout = None,
      AccAddress_String = (\<lambda>addr. ''qubetics1signer''),
      AccountRPC = (\<lambda>h addr. Ok (Some \<lparr>AccountNumber = 1, Sequence = 5\<rparr>)),
      SimulateRPC = (\<lambda>h buf. Ok (Some 100000)),
      BroadcastRPC = (\<lambda>h buf. answer broadcasts (length (filter isBroadcast h))),
      TxRPC = (\<lambda>h hash prove. answer queries (length (filter isTxQuery h)))\<rparr>"

definition exampleKey :: KeyRecord where
  "exampleKey = \<lparr>GetPubKey = Ok [3], GetAddress = Ok [7]\<rparr>"

definition exampleKeyring :: Keyring where
  "exampleKeyring =
     \<lparr>kr_Key = (\<lambda>name. if name = ''main'' then KeyFound exampleKey else KeyNotFound),
      kr_Sign = (\<lambda>name buf. Ok ([9], [3]))\<rparr>"

definition exampleClient :: Client where
  "exampleClient =
     \<lparr>keyring = exampleKeyring, queryProve = False, rpcChainID = ''qubetics'',
      txAuthzGranterAddr = [], txBroadcastRetryAttempts = 3,
      txBroadcastRetryDelay = 5000000000, txFeeGranterAddr = [], txFees = [],
      txFromName = ''main'', txGasAdjustment = (\<lambda>gasUsed. gasUsed),
      txGasPrices = [\<lparr>Denom = ''tics'', Amount = 10 ^ 17\<rparr>], txGas = 200000, txMemo = [],
      txQueryRetryAttempts = 2, txQueryRetryDelay = 1000000000,
      txSimulateAndExecute = False, txTimeoutHeight = 0\<rparr>"

definition exampleAccepted :: ResultBroadcastTx where
  "exampleAccepted = \<lparr>rb_Code = 0, rb_Data = [], rb_Log = [], rb_Codespace = [], rb_Hash = [4]\<rparr>"

definition exampleIncluded :: ResultTx where
  "exampleIncluded =
     \<lparr>rt_Hash = [4], rt_Height = 10, rt_Code = 0, rt_Codespace = [], rt_Log = [], rt_Events = []\<rparr>"

text \<open>What one complete attempt of the example client adds to the history.\<close>

definition exampleTx :: "Msg list \<Rightarrow> TxBuilder" where
  "exampleTx msgs =
     \<lparr>tx_Msgs = msgs, tx_FeeAmount = [\<lparr>coin_denom = ''tics'', coin_amount = 20000\<rparr>],
      tx_FeeGranter = [], tx_GasLimit = 200000, tx_Memo = [], tx_TimeoutHeight = 0,
      tx_Signatures =
        [\<lparr>sig_PubKey = [3], sig_SignMode = SIGN_MODE_DIRECT, sig_Signature = [9],
          sig_Sequence = 5\<rparr>]\<rparr>"

definition exampleAttempt :: "Msg list \<Rightarrow> event list" where
  "exampleAttempt msgs =
     map EvValidate msgs @ [EvAccount [7], EvEncode (exampleTx msgs), EvBroadcast [1]]"

definition sequenceError :: error where
  "sequenceError = ''expected 6, got 5: incorrect account sequence''"

definition duplicateError :: error where
  "duplicateError = ''tx already exists in cache''"


section \<open>Properties of the fee calculation\<close>

lemma precisionReuse_pos: "0 < precisionReuse"
  by (simp add: precisionReuse_def)

lemma quo_trunc_nonneg: "0 \<le> d \<Longrightarrow> 0 < b \<Longrightarrow> quo_trunc d b = d div b"
  by (cases "d = 0") (simp_all add: quo_trunc_def)

lemma quo_trunc_neg: "d < 0 \<Longrightarrow> 0 < b \<Longrightarrow> quo_trunc d b = - ((- d) div b)"
  by (simp add: quo_trunc_def)

lemma Ceil_eq: "Ceil d = ceilUnits d * precisionReuse"
proof (cases "0 \<le> d")
  case True
  have q: "quo_trunc d precisionReuse = d div precisionReuse"
    using True precisionReuse_pos by (rule quo_trunc_nonneg)
  have r: "rem_trunc d precisionReuse = d mod precisionReuse"
    by (simp add: rem_trunc_def q minus_mult_div_eq_mod)
  have nn: "0 \<le> d mod precisionReuse"
    using precisionReuse_pos by simp
  show ?thesis
  proof (cases "d mod precisionReuse = 0")
    case z: True
    then have "precisionReuse dvd d" by (simp add: dvd_eq_mod_eq_0)
    then have "(- d) div precisionReuse = - (d div precisionReuse)"
      by (simp add: dvd_neg_div)
    with z show ?thesis by (simp add: Ceil_def q r Let_def ceilUnits_def)
  next
    case nz: False
    then have "\<not> precisionReuse dvd d" by (simp add: dvd_eq_mod_eq_0)
    then have "(- d) div precisionReuse = - (d div precisionReuse) - 1"
      using nz precisionReuse_pos by (simp add: zdiv_zminus1_eq_if)
    with nz nn show ?thesis by (simp add: Ceil_def q r Let_def ceilUnits_def)
  qed
next
  case False
  then have neg: "d < 0" by simp
  have q: "quo_trunc d precisionReuse = - ((- d) div precisionReuse)"
    using neg precisionReuse_pos by (rule quo_trunc_neg)
  have r: "rem_trunc d precisionReuse = - ((- d) mod precisionReuse)"
    by (simp add: rem_trunc_def q algebra_simps minus_mult_div_eq_mod [symmetric])
  have "0 \<le> (- d) mod precisionReuse"
    using precisionReuse_pos by simp
  then have "rem_trunc d precisionReuse \<le> 0" by (simp add: r)
  then show ?thesis by (auto simp add: Ceil_def q Let_def ceilUnits_def)
qed

lemma chop_pos_multiple:
  "0 \<le> k \<Longrightarrow> chopPrecisionAndRound_pos (k * precisionReuse) = k"
  using precisionReuse_pos
  by (simp add: chopPrecisionAndRound_pos_def rem_trunc_def quo_trunc_nonneg Let_def)

lemma chop_multiple: "chopPrecisionAndRound (k * precisionReuse) = k"
proof (cases "0 \<le> k")
  case True
  then have "\<not> k * precisionReuse < 0"
    using precisionReuse_pos by (simp add: mult_less_0_iff)
  with True show ?thesis by (simp add: chopPrecisionAndRound_def chop_pos_multiple)
next
  case False
  then have "k * precisionReuse < 0"
    using precisionReuse_pos by (simp add: mult_less_0_iff)
  moreover have "chopPrecisionAndRound_pos ((- k) * precisionReuse) = - k"
    using False by (intro chop_pos_multiple) simp
  ultimately show ?thesis by (simp add: chopPrecisionAndRound_def)
qed

lemma ceilUnits_ceiling: "ceilUnits d = \<lceil>(of_int d / 10 ^ 18 :: rat)\<rceil>"
proof -
  have "\<lceil>(of_int d / 10 ^ 18 :: rat)\<rceil> = - \<lfloor>of_int (- d) / (of_int (10 ^ 18) :: rat)\<rfloor>"
    by (simp add: ceiling_def)
  also have "\<dots> = - ((- d) div 10 ^ 18)"
    by (simp only: floor_divide_of_int_eq)
  finally show ?thesis by (simp add: ceilUnits_def precisionReuse_def)
qed

lemma feeCoin_Ok_iff:
  "feeCoin price g = Ok c \<longleftrightarrow>
     \<not> bitlen_exceeds (Amount price * sint g) maxDecBitLen
     \<and> \<not> bitlen_exceeds (ceilUnits (Amount price * sint g)) MaxBitLen
     \<and> ValidateDenom (Denom price)
     \<and> 0 \<le> ceilUnits (Amount price * sint g)
     \<and> c = \<lparr>coin_denom = Denom price, coin_amount = ceilUnits (Amount price * sint g)\<rparr>"
  by (auto simp add: feeCoin_def MulInt64_def RoundInt_def NewCoin_def Let_def Ceil_eq
      chop_multiple)

lemma calculateFees_Cons_Ok:
  "calculateFees (price # gasPrices) g = Ok fees \<longleftrightarrow>
     (\<exists>c cs. feeCoin price g = Ok c \<and> calculateFees gasPrices g = Ok cs \<and> fees = c # cs)"
  by (auto split: result.splits)

lemma ceilUnits_mult:
  "ceilUnits (a * g) = \<lceil>(of_int a / 10 ^ 18 :: rat) * of_int g\<rceil>"
  by (simp add: ceilUnits_ceiling)

lemma calculateFees_entries:
  "calculateFees gasPrices g = Ok fees \<Longrightarrow>
   list_all2 (\<lambda>price fee. coin_denom fee = Denom price
                \<and> coin_amount fee = ceilUnits (Amount price * sint g)) gasPrices fees"
proof (induction gasPrices arbitrary: fees)
  case Nil
  then show ?case by simp
next
  case (Cons price gasPrices)
  then obtain c cs where c: "feeCoin price g = Ok c" and cs: "calculateFees gasPrices g = Ok cs"
    and fees: "fees = c # cs"
    using Cons.prems unfolding calculateFees_Cons_Ok by blast
  from c have "coin_denom c = Denom price \<and> coin_amount c = ceilUnits (Amount price * sint g)"
    by (simp add: feeCoin_Ok_iff)
  with Cons.IH [OF cs] fees show ?case by simp
qed

text \<open>
  Claim C8, as amended. When \<^verbatim>\<open>calculateFees\<close> returns, the fee has exactly one coin
  for each configured gas price, in the same order and with the same denom, and its
  amount is the ceiling of the price times the gas limit read as a signed 64-bit number.
  A denom that is not configured is therefore absent, and a denom whose price is zero
  is present with the amount zero.
\<close>

theorem calculateFees_one_coin_per_price:
  assumes "calculateFees gasPrices gasLimit = Ok fees"
  shows "list_all2 (\<lambda>price fee. coin_denom fee = Denom price
                \<and> coin_amount fee = \<lceil>(of_int (Amount price) / 10 ^ 18 :: rat) * of_int (sint gasLimit)\<rceil>)
            gasPrices fees
         \<and> map coin_denom fees = map Denom gasPrices
         \<and> (\<forall>price \<in> set gasPrices. Amount price = 0 \<longrightarrow>
               \<lparr>coin_denom = Denom price, coin_amount = 0\<rparr> \<in> set fees)"
proof -
  have e: "list_all2 (\<lambda>price fee. coin_denom fee = Denom price
                \<and> coin_amount fee = ceilUnits (Amount price * sint gasLimit)) gasPrices fees"
    using assms by (rule calculateFees_entries)
  have 1: "list_all2 (\<lambda>price fee. coin_denom fee = Denom price
                \<and> coin_amount fee = \<lceil>(of_int (Amount price) / 10 ^ 18 :: rat) * of_int (sint gasLimit)\<rceil>)
            gasPrices fees"
    using e by (simp add: ceilUnits_mult)
  have 2: "map coin_denom fees = map Denom gasPrices"
    using e by (induction gasPrices fees rule: list_all2_induct) simp_all
  have 3: "\<forall>price \<in> set gasPrices. Amount price = 0 \<longrightarrow>
               \<lparr>coin_denom = Denom price, coin_amount = 0\<rparr> \<in> set fees"
  proof (intro ballI impI)
    fix price assume "price \<in> set gasPrices" and z: "Amount price = 0"
    then obtain i where i: "i < length gasPrices" and p: "gasPrices ! i = price"
      by (auto simp add: in_set_conv_nth)
    have len: "length gasPrices = length fees"
      using e by (rule list_all2_lengthD)
    have "coin_denom (fees ! i) = Denom price
          \<and> coin_amount (fees ! i) = ceilUnits (Amount price * sint gasLimit)"
      using list_all2_nthD [OF e i] p by simp
    moreover have "ceilUnits 0 = 0" by (simp add: ceilUnits_def)
    ultimately have "fees ! i = \<lparr>coin_denom = Denom price, coin_amount = 0\<rparr>"
      using z by (cases "fees ! i") simp
    moreover have "fees ! i \<in> set fees"
      using i len by simp
    ultimately show "\<lparr>coin_denom = Denom price, coin_amount = 0\<rparr> \<in> set fees"
      by simp
  qed
  from 1 2 3 show ?thesis by blast
qed

lemmas fee_eval = feeCoin_def MulInt64_def bitlen_exceeds_def Ceil_def quo_trunc_def rem_trunc_def
  RoundInt_def chopPrecisionAndRound_def chopPrecisionAndRound_pos_def NewCoin_def
  ValidateDenom_def is_letter_def is_denom_char_def char_between_def maxDecBitLen_def
  MaxBitLen_def precisionReuse_def fivePrecision_def Let_def

text \<open>
  Claim C8, counterexample. With the gas prices \<open>0tics, 0.1uatom\<close> (not all zero, so that
  \<^verbatim>\<open>prepareTx\<close> calls \<^verbatim>\<open>calculateFees\<close>) and the gas limit 200000, the denom
  \<open>tics\<close>, priced at zero, is in the computed fee, with the amount 0.
\<close>

theorem zero_price_denom_present:
  "\<not> IsZero [\<lparr>Denom = ''tics'', Amount = 0\<rparr>, \<lparr>Denom = ''uatom'', Amount = 10 ^ 17\<rparr>]
   \<and> calculateFees [\<lparr>Denom = ''tics'', Amount = 0\<rparr>, \<lparr>Denom = ''uatom'', Amount = 10 ^ 17\<rparr>] 200000
       = Ok [\<lparr>coin_denom = ''tics'', coin_amount = 0\<rparr>, \<lparr>coin_denom = ''uatom'', coin_amount = 20000\<rparr>]"
  by (simp add: IsZero_def fee_eval)

text \<open>
  Claim C8, witness of the amended statement: the prices \<open>0tics\<close> and
  \<open>0.100000000000000001uatom\<close> at the gas limit 3.
\<close>

theorem calculateFees_one_coin_per_price_witness:
  "calculateFees [\<lparr>Denom = ''tics'', Amount = 0\<rparr>, \<lparr>Denom = ''uatom'', Amount = 10 ^ 17 + 1\<rparr>] 3
     = Ok [\<lparr>coin_denom = ''tics'', coin_amount = 0\<rparr>, \<lparr>coin_denom = ''uatom'', coin_amount = 1\<rparr>]
   \<and> map coin_denom [\<lparr>coin_denom = ''tics'', coin_amount = 0\<rparr>, \<lparr>coin_denom = ''uatom'', coin_amount = 1\<rparr>]
     = map Denom [\<lparr>Denom = ''tics'', Amount = 0\<rparr>, \<lparr>Denom = ''uatom'', Amount = 10 ^ 17 + 1\<rparr>]
   \<and> \<lparr>coin_denom = ''tics'', coin_amount = 0\<rparr>
       \<in> set [\<lparr>coin_denom = ''tics'', coin_amount = 0\<rparr>, \<lparr>coin_denom = ''uatom'', coin_amount = 1\<rparr>]"
proof -
  have h: "calculateFees [\<lparr>Denom = ''tics'', Amount = 0\<rparr>, \<lparr>Denom = ''uatom'', Amount = 10 ^ 17 + 1\<rparr>] 3
     = Ok [\<lparr>coin_denom = ''tics'', coin_amount = 0\<rparr>, \<lparr>coin_denom = ''uatom'', coin_amount = 1\<rparr>]"
    by (simp add: fee_eval)
  show ?thesis
    using h calculateFees_one_coin_per_price [OF h] by simp
qed








section \<open>Properties of the retry loop\<close>

lemma broadcastRetryFunc_closure:
  "broadcastRetryFunc c env msgs = closureFunc (broadcastTxSync c env msgs) IsTxInMempoolCacheError"
  by (rule ext) (simp add: broadcastRetryFunc_def closureFunc_def)


lemma retry_run_Ok:
  "f st = (Ok u, st') \<Longrightarrow> retry_run f p sl k st = (Ok u, st')"
  by (cases k) simp_all

lemma retry_run_Panic:
  "f st = (Panic q, st') \<Longrightarrow> retry_run f p sl k st = (Panic q, st')"
  by (cases k) simp_all

lemma retry_run_stop:
  "f st = (Err e, st') \<Longrightarrow> \<not> p e \<Longrightarrow> retry_run f p sl k st = (Err e, st')"
  by (cases k) simp_all

lemma retry_run_again:
  "f st = (Err e, st') \<Longrightarrow> p e \<Longrightarrow> retry_run f p sl (Suc k) st = retry_run f p sl k (sl st')"
  by simp

lemma retry_run_skip:
  assumes "\<forall>j<i. \<exists>e. fst (attempt (attemptWorld attempt d s j)) = Err e \<and> \<not> absorb e \<and> p e"
    and "i \<le> k"
  shows "\<exists>r'. retry_run (closureFunc attempt absorb) p (sleepFor d) k (r, s)
             = retry_run (closureFunc attempt absorb) p (sleepFor d) (k - i)
                 (r', attemptWorld attempt d s i)"
  using assms
proof (induction i)
  case 0
  then show ?case by auto
next
  case (Suc i)
  then obtain r' where r': "retry_run (closureFunc attempt absorb) p (sleepFor d) k (r, s)
             = retry_run (closureFunc attempt absorb) p (sleepFor d) (k - i)
                 (r', attemptWorld attempt d s i)"
    by auto
  obtain e where e: "fst (attempt (attemptWorld attempt d s i)) = Err e" "\<not> absorb e" "p e"
    using Suc.prems(1) by blast
  obtain s1 where s1: "attempt (attemptWorld attempt d s i) = (Err e, s1)"
    using e(1) by (cases "attempt (attemptWorld attempt d s i)") simp
  have f: "closureFunc attempt absorb (r', attemptWorld attempt d s i) = (Err e, (None, s1))"
    using s1 e(2) by (simp add: closureFunc_def)
  have k: "k - i = Suc (k - Suc i)"
    using Suc.prems(2) by simp
  have "retry_run (closureFunc attempt absorb) p (sleepFor d) (k - i)
          (r', attemptWorld attempt d s i)
        = retry_run (closureFunc attempt absorb) p (sleepFor d) (k - Suc i)
            (sleepFor d (None, s1))"
    unfolding k using f e(3) by (rule retry_run_again)
  also have "sleepFor d (None, s1) = (None, attemptWorld attempt d s (Suc i))"
    using s1 by (simp add: sleepFor_def)
  finally show ?case
    using r' by auto
qed

section \<open>Histories only grow\<close>

lemma emits_iff: "emits P s s' \<longleftrightarrow> (\<exists>t. s' = s @ t \<and> list_all P t)"
proof
  assume "emits P s s'"
  then have "s' = s @ drop (length s) s'" and "list_all P (drop (length s) s')"
    by (simp_all add: emits_def) (metis append_take_drop_id)
  then show "\<exists>t. s' = s @ t \<and> list_all P t" by blast
next
  assume "\<exists>t. s' = s @ t \<and> list_all P t"
  then show "emits P s s'" by (auto simp add: emits_def)
qed

lemma emits_refl: "emits P s s"
  by (simp add: emits_def)

lemma emits_trans: "emits P s s1 \<Longrightarrow> emits P s1 s2 \<Longrightarrow> emits P s s2"
  by (auto simp add: emits_iff)

lemma emits_snoc: "P ev \<Longrightarrow> emits P s (s @ [ev])"
  by (simp add: emits_def)



lemma andThen_emits:
  assumes "emits P s (snd m)"
    and "\<And>v s1. m = (Ok v, s1) \<Longrightarrow> emits P s1 (snd (f v s1))"
  shows "emits P s (snd (andThen m f))"
proof (cases m)
  case (Pair r s1)
  show ?thesis
  proof (cases r)
    case (Ok v)
    with Pair assms show ?thesis by (auto intro: emits_trans)
  next
    case (Err e)
    with Pair assms show ?thesis by simp
  next
    case (Panic q)
    with Pair assms show ?thesis by simp
  qed
qed

lemma validateMsgs_emits:
  "(\<And>m. m \<in> set msgs \<Longrightarrow> P (EvValidate m)) \<Longrightarrow> emits P s (snd (validateMsgs env i msgs s))"
proof (induction msgs arbitrary: i s)
  case Nil
  then show ?case by (simp add: emits_refl)
next
  case (Cons m msgs)
  have 1: "emits P s (s @ [EvValidate m])"
    using Cons.prems by (intro emits_snoc) simp
  have 2: "emits P (s @ [EvValidate m]) (snd (validateMsgs env (Suc i) msgs (s @ [EvValidate m])))"
    using Cons.prems by (intro Cons.IH) simp
  show ?case
    using 1 emits_trans [OF 1 2] by (simp split: option.splits)
qed

lemma encodeTx_emits: "P (EvEncode txb) \<Longrightarrow> emits P s (snd (encodeTx env txb s))"
  by (simp add: encodeTx_def emits_snoc)

lemma Simulate_emits: "P (EvSimulate buf) \<Longrightarrow> emits P s (snd (Simulate env buf s))"
  by (simp add: Simulate_def emits_snoc)

lemma AccountQuery_emits: "P (EvAccount addr) \<Longrightarrow> emits P s (snd (AccountQuery env addr s))"
  by (simp add: AccountQuery_def emits_snoc)

lemma http_BroadcastTxSync_emits:
  "P (EvBroadcast buf) \<Longrightarrow> emits P s (snd (http_BroadcastTxSync env buf s))"
  by (simp add: http_BroadcastTxSync_def emits_snoc)


lemma gasSimulateTx_emits:
  assumes "P (EvEncode txb)" and "\<And>buf. P (EvSimulate buf)"
  shows "emits P s (snd (gasSimulateTx c env txb s))"
  unfolding gasSimulateTx_def
  by (intro andThen_emits)
    (auto simp add: assms encodeTx_emits Simulate_emits emits_refl split: option.splits)

lemma setGasPriceFees_msgs:
  "setGasPriceFees c g txb = Ok txb' \<Longrightarrow> tx_Msgs txb' = tx_Msgs txb"
  by (auto simp add: setGasPriceFees_def split: if_splits result.splits)

lemma prepareTx_emits:
  assumes "\<And>txb. tx_Msgs txb = msgs \<Longrightarrow> P (EvEncode txb)" and "\<And>buf. P (EvSimulate buf)"
  shows "emits P s (snd (prepareTx c env key acc msgs s))"
  unfolding prepareTx_def Let_def
  by (intro andThen_emits)
    (auto simp add: assms emits_refl NewTxBuilder_def dest!: setGasPriceFees_msgs
       intro!: andThen_emits gasSimulateTx_emits)

section \<open>What one attempt does\<close>

lemma andThen_Ok:
  "andThen m f = (Ok v, s') \<longleftrightarrow> (\<exists>u s1. m = (Ok u, s1) \<and> f u s1 = (Ok v, s'))"
proof (cases m)
  case (Pair r s1)
  then show ?thesis by (cases r) auto
qed

lemma wrapErr_Ok [simp]: "wrapErr pre r = Ok v \<longleftrightarrow> r = Ok v"
  by (cases r) auto

lemma apfst_wrapErr_Ok [simp]: "apfst (wrapErr pre) x = (Ok v, s) \<longleftrightarrow> x = (Ok v, s)"
  by (cases x) auto

lemma prepareTx_msgs:
  "prepareTx c env key acc msgs s = (Ok txb, s') \<Longrightarrow> tx_Msgs txb = msgs"
  unfolding prepareTx_def Let_def
  by (auto simp add: andThen_Ok NewTxBuilder_def split: if_splits dest!: setGasPriceFees_msgs)

lemma signTx_msgs:
  "signTx c env txb key acc s = (Ok txb', s') \<Longrightarrow> tx_Msgs txb' = tx_Msgs txb"
  unfolding signTx_def Let_def
  by (auto simp add: andThen_Ok)

lemma signTx_world: "snd (signTx c env txb key acc s) = s"
proof -
  have "emits (\<lambda>ev. False) s (snd (signTx c env txb key acc s))"
    unfolding signTx_def Let_def
    by (intro andThen_emits) (auto simp add: emits_refl intro!: andThen_emits)
  then show ?thesis
    by (auto simp add: emits_iff list_all_iff)
qed

lemma broadcastTxSync_emits_plain:
  assumes key: "Key c (txFromName c) = Ok (Some key)" and addr: "GetAddress key = Ok addr"
    and plain: "Empty (txAuthzGranterAddr c)"
  shows "emits (attemptEvent addr msgs) s (snd (broadcastTxSync c env msgs s))"
  unfolding broadcastTxSync_def Let_def
  by (auto simp add: key addr plain emits_refl signTx_world split: option.splits
      intro!: andThen_emits validateMsgs_emits AccountQuery_emits prepareTx_emits
        encodeTx_emits http_BroadcastTxSync_emits
      dest!: prepareTx_msgs signTx_msgs)

lemma Key_granter [simp]: "Key (c\<lparr>txAuthzGranterAddr := a\<rparr>) name = Key c name"
  by (simp add: Key_def)

lemma Sign_granter [simp]: "Sign (c\<lparr>txAuthzGranterAddr := a\<rparr>) name buf = Sign c name buf"
  by (simp add: Sign_def)

lemma setGasPriceFees_granter [simp]:
  "setGasPriceFees (c\<lparr>txAuthzGranterAddr := a\<rparr>) g txb = setGasPriceFees c g txb"
  by (simp add: setGasPriceFees_def)

lemma gasSimulateTx_granter [simp]:
  "gasSimulateTx (c\<lparr>txAuthzGranterAddr := a\<rparr>) env txb s = gasSimulateTx c env txb s"
  by (simp add: gasSimulateTx_def cong: option.case_cong)

lemma prepareTx_granter [simp]:
  "prepareTx (c\<lparr>txAuthzGranterAddr := a\<rparr>) env key acc msgs s = prepareTx c env key acc msgs s"
  by (simp add: prepareTx_def Let_def cong: if_cong)

lemma signTx_granter [simp]:
  "signTx (c\<lparr>txAuthzGranterAddr := a\<rparr>) env txb key acc s = signTx c env txb key acc s"
  by (simp add: signTx_def Let_def)

lemma broadcastTxSync_authz:
  assumes key: "Key c (txFromName c) = Ok (Some key)" and addr: "GetAddress key = Ok addr"
    and granter: "\<not> Empty (txAuthzGranterAddr c)"
  shows "broadcastTxSync c env msgs s
         = broadcastTxSync (c\<lparr>txAuthzGranterAddr := []\<rparr>) env [NewMsgExec addr msgs] s"
  using granter
  by (simp add: broadcastTxSync_def key addr Empty_def Let_def cong: option.case_cong)

lemma broadcastTxSync_emits:
  assumes key: "Key c (txFromName c) = Ok (Some key)" and addr: "GetAddress key = Ok addr"
  shows "emits (attemptEvent addr
                  (if \<not> Empty (txAuthzGranterAddr c) then [NewMsgExec addr msgs] else msgs)) s
           (snd (broadcastTxSync c env msgs s))"
proof (cases "Empty (txAuthzGranterAddr c)")
  case True
  then show ?thesis
    using broadcastTxSync_emits_plain [OF key addr True] by simp
next
  case False
  have key': "Key (c\<lparr>txAuthzGranterAddr := []\<rparr>) (txFromName (c\<lparr>txAuthzGranterAddr := []\<rparr>))
              = Ok (Some key)"
    using key by simp
  have "emits (attemptEvent addr [NewMsgExec addr msgs]) s
          (snd (broadcastTxSync (c\<lparr>txAuthzGranterAddr := []\<rparr>) env [NewMsgExec addr msgs] s))"
    using key' addr by (rule broadcastTxSync_emits_plain) (simp add: Empty_def)
  then show ?thesis
    using False by (simp add: broadcastTxSync_authz [OF key addr False])
qed



lemma closureFunc_world: "snd (snd (closureFunc attempt absorb st)) = snd (attempt (snd st))"
  by (simp add: closureFunc_def split: prod.splits result.splits)

lemma retry_run_extends:
  assumes mono: "\<And>s. emits (\<lambda>ev. True) s (snd (attempt s))"
  shows "emits (\<lambda>ev. True) (snd (attempt s))
           (snd (snd (retry_run (closureFunc attempt absorb) p (sleepFor d) k (r, s))))"
proof (induction k arbitrary: r s)
  case 0
  then show ?case by (simp add: closureFunc_world emits_refl)
next
  case (Suc k)
  obtain x s1 where a: "attempt s = (x, s1)" by (cases "attempt s")
  show ?case
  proof (cases x)
    case (Ok v)
    with a show ?thesis by (simp add: closureFunc_def emits_refl)
  next
    case (Panic q)
    with a show ?thesis by (simp add: closureFunc_def emits_refl)
  next
    case (Err e)
    show ?thesis
    proof (cases "\<not> absorb e \<and> p e")
      case False
      with a Err show ?thesis by (auto simp add: closureFunc_def emits_refl)
    next
      case True
      have 1: "emits (\<lambda>ev. True) s1 (s1 @ [EvSleep d])"
        by (simp add: emits_snoc)
      have 2: "emits (\<lambda>ev. True) (s1 @ [EvSleep d]) (snd (attempt (s1 @ [EvSleep d])))"
        by (rule mono)
      have 3: "emits (\<lambda>ev. True) (snd (attempt (s1 @ [EvSleep d])))
                 (snd (snd (retry_run (closureFunc attempt absorb) p (sleepFor d) k
                              (None, s1 @ [EvSleep d]))))"
        by (rule Suc.IH)
      have "emits (\<lambda>ev. True) s1
                 (snd (snd (retry_run (closureFunc attempt absorb) p (sleepFor d) k
                              (None, s1 @ [EvSleep d]))))"
        using 1 2 3 by (blast intro: emits_trans)
      moreover have f: "closureFunc attempt absorb (r, s) = (Err e, (None, s1))"
        using a Err True by (simp add: closureFunc_def)
      moreover have "sleepFor d (None :: 'a option, s1) = (None, s1 @ [EvSleep d])"
        by (simp add: sleepFor_def)
      ultimately show ?thesis
        using a True
          retry_run_again [of "closureFunc attempt absorb" "(r, s)" e "(None, s1)" p "sleepFor d" k]
        by simp
    qed
  qed
qed

text \<open>The three ways in which a loop of closures ends or goes on at attempt \<open>i\<close>.\<close>

lemma retry_closure_at:
  assumes earlier: "\<forall>j<i. \<exists>e. fst (attempt (attemptWorld attempt d s j)) = Err e \<and> \<not> absorb e \<and> p e"
    and i: "i < n"
    and at: "attempt (attemptWorld attempt d s i) = (x, s')"
  shows "(\<forall>v. x = Ok v \<longrightarrow>
            retry_Do (closureFunc attempt absorb) n p (sleepFor d) (r, s) = (Ok (), (Some v, s')))"
    and "(\<forall>e. x = Err e \<and> absorb e \<longrightarrow>
            retry_Do (closureFunc attempt absorb) n p (sleepFor d) (r, s) = (Ok (), (None, s')))"
    and "(\<forall>e. x = Err e \<and> \<not> absorb e \<and> (\<not> p e \<or> Suc i = n) \<longrightarrow>
            retry_Do (closureFunc attempt absorb) n p (sleepFor d) (r, s) = (Err e, (None, s')))"
    and "(\<forall>e. x = Err e \<and> \<not> absorb e \<and> p e \<and> Suc i < n \<longrightarrow>
            (\<forall>s. emits (\<lambda>ev. True) s (snd (attempt s))) \<longrightarrow>
            emits (\<lambda>ev. True) (snd (attempt (attemptWorld attempt d s (Suc i))))
              (snd (snd (retry_Do (closureFunc attempt absorb) n p (sleepFor d) (r, s)))))"
proof -
  have le: "i \<le> n - 1" using i by simp
  obtain r' where skip: "retry_run (closureFunc attempt absorb) p (sleepFor d) (n - 1) (r, s)
             = retry_run (closureFunc attempt absorb) p (sleepFor d) (n - 1 - i)
                 (r', attemptWorld attempt d s i)"
    using retry_run_skip [OF earlier le] by blast
  show "(\<forall>v. x = Ok v \<longrightarrow>
            retry_Do (closureFunc attempt absorb) n p (sleepFor d) (r, s) = (Ok (), (Some v, s')))"
  proof (intro allI impI)
    fix v assume "x = Ok v"
    then have "closureFunc attempt absorb (r', attemptWorld attempt d s i) = (Ok (), (Some v, s'))"
      using at by (simp add: closureFunc_def)
    then show "retry_Do (closureFunc attempt absorb) n p (sleepFor d) (r, s)
               = (Ok (), (Some v, s'))"
      unfolding retry_Do_def skip by (rule retry_run_Ok)
  qed
  show "(\<forall>e. x = Err e \<and> absorb e \<longrightarrow>
            retry_Do (closureFunc attempt absorb) n p (sleepFor d) (r, s) = (Ok (), (None, s')))"
  proof (intro allI impI)
    fix e assume "x = Err e \<and> absorb e"
    then have "closureFunc attempt absorb (r', attemptWorld attempt d s i) = (Ok (), (None, s'))"
      using at by (simp add: closureFunc_def)
    then show "retry_Do (closureFunc attempt absorb) n p (sleepFor d) (r, s)
               = (Ok (), (None, s'))"
      unfolding retry_Do_def skip by (rule retry_run_Ok)
  qed
  show "(\<forall>e. x = Err e \<and> \<not> absorb e \<and> (\<not> p e \<or> Suc i = n) \<longrightarrow>
            retry_Do (closureFunc attempt absorb) n p (sleepFor d) (r, s) = (Err e, (None, s')))"
  proof (intro allI impI)
    fix e assume e: "x = Err e \<and> \<not> absorb e \<and> (\<not> p e \<or> Suc i = n)"
    then have f: "closureFunc attempt absorb (r', attemptWorld attempt d s i) = (Err e, (None, s'))"
      using at by (simp add: closureFunc_def)
    from e have "\<not> p e \<or> n - 1 - i = 0" by auto
    then show "retry_Do (closureFunc attempt absorb) n p (sleepFor d) (r, s) = (Err e, (None, s'))"
    proof
      assume "\<not> p e"
      with f show ?thesis
        unfolding retry_Do_def skip by (rule retry_run_stop)
    next
      assume "n - 1 - i = 0"
      with f show ?thesis
        unfolding retry_Do_def skip by simp
    qed
  qed
  show "(\<forall>e. x = Err e \<and> \<not> absorb e \<and> p e \<and> Suc i < n \<longrightarrow>
            (\<forall>s. emits (\<lambda>ev. True) s (snd (attempt s))) \<longrightarrow>
            emits (\<lambda>ev. True) (snd (attempt (attemptWorld attempt d s (Suc i))))
              (snd (snd (retry_Do (closureFunc attempt absorb) n p (sleepFor d) (r, s)))))"
  proof (intro allI impI)
    fix e assume e: "x = Err e \<and> \<not> absorb e \<and> p e \<and> Suc i < n"
      and mono: "\<forall>s. emits (\<lambda>ev. True) s (snd (attempt s))"
    have earlier': "\<forall>j<Suc i. \<exists>e. fst (attempt (attemptWorld attempt d s j)) = Err e
                      \<and> \<not> absorb e \<and> p e"
      using earlier e at by (auto simp add: less_Suc_eq)
    have le': "Suc i \<le> n - 1" using e by linarith
    obtain r'' where skip': "retry_run (closureFunc attempt absorb) p (sleepFor d) (n - 1) (r, s)
             = retry_run (closureFunc attempt absorb) p (sleepFor d) (n - 1 - Suc i)
                 (r'', attemptWorld attempt d s (Suc i))"
      using retry_run_skip [OF earlier' le'] by blast
    show "emits (\<lambda>ev. True) (snd (attempt (attemptWorld attempt d s (Suc i))))
              (snd (snd (retry_Do (closureFunc attempt absorb) n p (sleepFor d) (r, s))))"
      unfolding retry_Do_def skip'
      using mono by (intro retry_run_extends) simp
  qed
qed

section \<open>Properties of the broadcast and query loops\<close>

lemma failedWith_iff: "failedWith P r \<longleftrightarrow> (\<exists>e. r = Err e \<and> P e)"
  by (cases r) (simp_all add: failedWith_def)

lemma sequenceRetries_iff:
  "sequenceRetries c env msgs s i \<longleftrightarrow>
     (\<forall>j<i. \<exists>e. fst (broadcastTxSync c env msgs
                        (attemptWorld (broadcastTxSync c env msgs) (txBroadcastRetryDelay c) s j))
                  = Err e
                \<and> \<not> IsTxInMempoolCacheError e \<and> broadcastRetryIfFunc e)"
  by (auto simp add: sequenceRetries_def broadcastAttemptWorld_def list_all_iff failedWith_iff
      broadcastRetryIfFunc_def [abs_def])




lemma BroadcastTxSync_absorbs:
  assumes i: "i < txBroadcastRetryAttempts c"
    and earlier: "sequenceRetries c env msgs s i"
    and at: "broadcastTxSync c env msgs (broadcastAttemptWorld c env msgs s i) = (Err err, s')"
    and dup: "IsTxInMempoolCacheError err"
  shows "BroadcastTxSync c env msgs s = (Ok None, s')"
proof -
  have "retry_Do (closureFunc (broadcastTxSync c env msgs) IsTxInMempoolCacheError)
          (txBroadcastRetryAttempts c) broadcastRetryIfFunc (sleepFor (txBroadcastRetryDelay c))
          (None, s)
        = (Ok (), (None, s'))"
    using retry_closure_at(2) [OF earlier [unfolded sequenceRetries_iff] i
        at [unfolded broadcastAttemptWorld_def]] dup
    by blast
  then show ?thesis
    by (simp add: BroadcastTxSync_def broadcastRetryFunc_closure)
qed


text \<open>
  Claim C2. When an attempt fails with a mempool-cache-duplicate error,
  \<^verbatim>\<open>BroadcastTxSync\<close> returns a \<^verbatim>\<open>nil\<close> result with a \<^verbatim>\<open>nil\<close> error, and
  \<^verbatim>\<open>BroadcastTxBlock\<close>, which reads \<^verbatim>\<open>resp.Code\<close> next, panics on the \<^verbatim>\<open>nil\<close>
  pointer.
\<close>
theorem BroadcastTxBlock_mempool_duplicate_nil_dereference:
  assumes "i < txBroadcastRetryAttempts c"
    and "sequenceRetries c env msgs s i"
    and "broadcastTxSync c env msgs (broadcastAttemptWorld c env msgs s i) = (Err err, s')"
    and "IsTxInMempoolCacheError err"
  shows "BroadcastTxSync c env msgs s = (Ok None, s')
         \<and> BroadcastTxBlock c env msgs s = (Panic nilDereference, s')"
  using BroadcastTxSync_absorbs [OF assms] by (simp add: BroadcastTxBlock_def)



section \<open>The scripted node, evaluated\<close>

lemma scripted_fields:
  "ValidateBasic (scriptedEnv bs qs) = (\<lambda>msg. None)"
  "SetMsgs (scriptedEnv bs qs) = (\<lambda>msgs. None)"
  "SetSignatures (scriptedEnv bs qs) = (\<lambda>signature. None)"
  "TxEncoder (scriptedEnv bs qs) = (\<lambda>txb. Ok [1])"
  "GetSignBytes (scriptedEnv bs qs) = (\<lambda>mode signerData txb. Ok [2])"
  "NewWithTimeout (scriptedEnv bs qs) = None"
  "AccountRPC (scriptedEnv bs qs) = (\<lambda>h addr. Ok (Some \<lparr>AccountNumber = 1, Sequence = 5\<rparr>))"
  "SimulateRPC (scriptedEnv bs qs) = (\<lambda>h buf. Ok (Some 100000))"
  "BroadcastRPC (scriptedEnv bs qs) = (\<lambda>h buf. answer bs (length (filter isBroadcast h)))"
  "TxRPC (scriptedEnv bs qs) = (\<lambda>h hash prove. answer qs (length (filter isTxQuery h)))"
  by (simp_all add: scriptedEnv_def)

lemma validateMsgs_scripted:
  "validateMsgs (scriptedEnv bs qs) i msgs h = (Ok (), h @ map EvValidate msgs)"
  by (induction msgs arbitrary: i h) (simp_all add: scripted_fields)

lemma example_broadcastTxSync:
  "broadcastTxSync exampleClient (scriptedEnv bs qs) msgs h
     = (wrapErr ''failed to sync broadcast tx: '' (answer bs (length (filter isBroadcast h))),
        h @ exampleAttempt msgs)"
proof -
  have v: "validateMsgs (scriptedEnv bs qs) 0 msgs h = (Ok (), h @ map EvValidate msgs)"
    by (rule validateMsgs_scripted)
  have n: "length (filter isBroadcast (map EvValidate msgs)) = 0"
    by (induction msgs) simp_all
  show ?thesis
    unfolding broadcastTxSync_def
    by (cases "answer bs (length (filter isBroadcast h))")
      (simp_all add: v n Key_def Sign_def prepareTx_def signTx_def
        setGasPriceFees_def IsZero_def encodeTx_def AccountQuery_def HTTP_def
        http_BroadcastTxSync_def placeholderSignature_def NewTxBuilder_def Empty_def
        exampleClient_def exampleKeyring_def exampleKey_def exampleAttempt_def exampleTx_def
        scripted_fields fee_eval)
qed

lemma example_tx:
  "tx exampleClient (scriptedEnv bs qs) hash h
     = (wrapErr ''failed to query tx: '' (answer qs (length (filter isTxQuery h))),
        h @ [EvTx hash False])"
  unfolding tx_def
  by (cases "answer qs (length (filter isTxQuery h))")
    (simp_all add: HTTP_def http_Tx_def exampleClient_def scripted_fields)

lemmas class_eval = IsTxInMempoolCacheError_def IsWrongSequenceError_def ToLower_def
  toLowerChar_def sequenceError_def duplicateError_def

lemma sequenceError_class:
  "IsWrongSequenceError (''failed to sync broadcast tx: '' @ sequenceError)"
  "\<not> IsTxInMempoolCacheError (''failed to sync broadcast tx: '' @ sequenceError)"
  by (simp_all add: class_eval)

lemma duplicateError_class:
  "IsTxInMempoolCacheError (''failed to sync broadcast tx: '' @ duplicateError)"
  by (simp add: class_eval)

lemma exampleAttempt_broadcasts:
  "length (filter isBroadcast (exampleAttempt msgs)) = 1"
  by (induction msgs) (simp_all add: exampleAttempt_def)


text \<open>Claim C2, witness: the node answers the first broadcast with the mempool-cache error.\<close>
theorem BroadcastTxBlock_mempool_duplicate_nil_dereference_witness:
  "BroadcastTxSync exampleClient (scriptedEnv [Err duplicateError] []) [DomainMsg ''m''] []
     = (Ok None, exampleAttempt [DomainMsg ''m''])
   \<and> BroadcastTxBlock exampleClient (scriptedEnv [Err duplicateError] []) [DomainMsg ''m''] []
     = (Panic nilDereference, exampleAttempt [DomainMsg ''m''])"
proof -
  let ?env = "scriptedEnv [Err duplicateError] []"
  let ?msgs = "[DomainMsg ''m'']"
  have h1: "0 < txBroadcastRetryAttempts exampleClient"
    by (simp add: exampleClient_def)
  have h2: "sequenceRetries exampleClient ?env ?msgs [] 0"
    by (simp add: sequenceRetries_def)
  have h3: "broadcastTxSync exampleClient ?env ?msgs
              (broadcastAttemptWorld exampleClient ?env ?msgs [] 0)
            = (Err (''failed to sync broadcast tx: '' @ duplicateError), exampleAttempt ?msgs)"
    by (simp add: broadcastAttemptWorld_def example_broadcastTxSync)
  have h4: "IsTxInMempoolCacheError (''failed to sync broadcast tx: '' @ duplicateError)"
    by (rule duplicateError_class)
  show ?thesis
    using BroadcastTxBlock_mempool_duplicate_nil_dereference [OF h1 h2 h3 h4] .
qed

lemma example_world_0: "broadcastAttemptWorld c env msgs s 0 = s"
  by (simp add: broadcastAttemptWorld_def)

lemma example_world_Suc:
  "broadcastAttemptWorld exampleClient (scriptedEnv bs qs) msgs s (Suc i)
   = broadcastAttemptWorld exampleClient (scriptedEnv bs qs) msgs s i
       @ exampleAttempt msgs @ [EvSleep 5000000000]"
  by (simp add: broadcastAttemptWorld_def example_broadcastTxSync) (simp add: exampleClient_def)

lemma example_attempts:
  "txBroadcastRetryAttempts exampleClient = Suc (Suc (Suc 0))"
  "txQueryRetryAttempts exampleClient = Suc (Suc 0)"
  "txBroadcastRetryDelay exampleClient = 5000000000"
  "txQueryRetryDelay exampleClient = 1000000000"
  by (simp_all add: exampleClient_def)






text \<open>
  The five cases of \<^verbatim>\<open>BroadcastTxBlock\<close> when \<^verbatim>\<open>BroadcastTxSync\<close> returns an error
  or a result.
\<close>
lemma BroadcastTxBlock_case_analysis:
  "(BroadcastTxSync c env msgs s = (Err err, s1) \<longrightarrow>
      BroadcastTxBlock c env msgs s = (Ok (None, None, Some err), s1))
   \<and> (BroadcastTxSync c env msgs s = (Ok (Some resp), s1) \<and> rb_Code resp \<noteq> CodeTypeOK \<longrightarrow>
      BroadcastTxBlock c env msgs s
        = (Ok (Some resp, None,
               Some (''tx sync broadcast failed: ''
                     @ codeError (rb_Code resp) (rb_Codespace resp) (rb_Log resp))), s1))
   \<and> (BroadcastTxSync c env msgs s = (Ok (Some resp), s1) \<and> rb_Code resp = CodeTypeOK
        \<and> Tx c env (rb_Hash resp) s1 = (Err err, s2) \<longrightarrow>
      BroadcastTxBlock c env msgs s = (Ok (Some resp, None, Some err), s2))
   \<and> (BroadcastTxSync c env msgs s = (Ok (Some resp), s1) \<and> rb_Code resp = CodeTypeOK
        \<and> Tx c env (rb_Hash resp) s1 = (Ok (Some res), s2) \<and> \<not> IsOK res \<longrightarrow>
      BroadcastTxBlock c env msgs s
        = (Ok (Some resp, Some res,
               Some (''tx failed: ''
                     @ codeError (rt_Code res) (rt_Codespace res) (rt_Log res))), s2))
   \<and> (BroadcastTxSync c env msgs s = (Ok (Some resp), s1) \<and> rb_Code resp = CodeTypeOK
        \<and> Tx c env (rb_Hash resp) s1 = (Ok (Some res), s2) \<and> IsOK res \<longrightarrow>
      BroadcastTxBlock c env msgs s = (Ok (Some resp, Some res, None), s2))"
  by (simp add: BroadcastTxBlock_def)

text \<open>The example client, a sequence error, an accepted broadcast, and the transaction found by the second query.\<close>

lemma BroadcastTxBlock_example_success:
  "BroadcastTxBlock exampleClient
     (scriptedEnv [Err sequenceError, Ok exampleAccepted] [Err ''not found'', Ok exampleIncluded])
     [DomainMsg ''m''] []
   = (Ok (Some exampleAccepted, Some exampleIncluded, None),
      exampleAttempt [DomainMsg ''m''] @ [EvSleep 5000000000] @ exampleAttempt [DomainMsg ''m'']
      @ [EvTx [4] False, EvSleep 1000000000, EvTx [4] False])"
proof -
  let ?env = "scriptedEnv [Err sequenceError, Ok exampleAccepted]
                [Err ''not found'', Ok exampleIncluded]"
  let ?msgs = "[DomainMsg ''m'']"
  let ?A = "exampleAttempt ?msgs"
  have b: "BroadcastTxSync exampleClient ?env ?msgs []
           = (Ok (Some exampleAccepted), ?A @ [EvSleep 5000000000] @ ?A)"
    using sequenceError_class
    by (simp add: BroadcastTxSync_def retry_Do_def broadcastRetryFunc_def example_attempts
        example_broadcastTxSync broadcastRetryIfFunc_def sleepFor_def exampleAttempt_broadcasts)
  have h: "rb_Hash exampleAccepted = [4]" "rb_Code exampleAccepted = CodeTypeOK"
    by (simp_all add: exampleAccepted_def CodeTypeOK_def)
  have n: "length (filter isTxQuery ?A) = 0"
    by (simp add: exampleAttempt_def)
  have q: "Tx exampleClient ?env [4] (?A @ [EvSleep 5000000000] @ ?A)
           = (Ok (Some exampleIncluded),
              ?A @ [EvSleep 5000000000] @ ?A
              @ [EvTx [4] False, EvSleep 1000000000, EvTx [4] False])"
    by (simp add: Tx_def retry_Do_def txRetryFunc_def example_attempts example_tx
        txRetryIfFunc_def sleepFor_def n)
  have ok: "IsOK exampleIncluded"
    by (simp add: IsOK_def exampleIncluded_def CodeTypeOK_def)
  show ?thesis
    using q by (simp add: BroadcastTxBlock_def b h ok)
qed

text \<open>
  Claim C4, the input on which the case analysis is not performed: the second broadcast
  is answered with the mempool-cache error, \<^verbatim>\<open>BroadcastTxSync\<close> returns neither a
  result nor an error, and \<^verbatim>\<open>BroadcastTxBlock\<close> returns nothing: it panics.
\<close>
theorem BroadcastTxBlock_panics_on_mempool_duplicate:
  "BroadcastTxBlock exampleClient (scriptedEnv [Err sequenceError, Err duplicateError] [])
     [DomainMsg ''m''] []
   = (Panic nilDereference,
      exampleAttempt [DomainMsg ''m''] @ [EvSleep 5000000000] @ exampleAttempt [DomainMsg ''m''])"
proof -
  let ?env = "scriptedEnv [Err sequenceError, Err duplicateError] []"
  let ?msgs = "[DomainMsg ''m'']"
  have seq: "failedWith (\<lambda>e. \<not> IsTxInMempoolCacheError e \<and> IsWrongSequenceError e)
               (Err (''failed to sync broadcast tx: '' @ sequenceError))"
    using sequenceError_class by (simp add: failedWith_def)
  have h1: "Suc 0 < txBroadcastRetryAttempts exampleClient"
    by (simp add: example_attempts)
  have h2: "sequenceRetries exampleClient ?env ?msgs [] (Suc 0)"
    using seq by (simp add: sequenceRetries_def example_world_0 example_broadcastTxSync)
  have h3: "broadcastTxSync exampleClient ?env ?msgs
              (broadcastAttemptWorld exampleClient ?env ?msgs [] (Suc 0))
            = (Err (''failed to sync broadcast tx: '' @ duplicateError),
               exampleAttempt ?msgs @ [EvSleep 5000000000] @ exampleAttempt ?msgs)"
    by (simp add: example_world_0 example_world_Suc example_broadcastTxSync
        exampleAttempt_broadcasts)
  have "BroadcastTxSync exampleClient ?env ?msgs []
        = (Ok None, exampleAttempt ?msgs @ [EvSleep 5000000000] @ exampleAttempt ?msgs)"
    using h1 h2 h3 duplicateError_class by (rule BroadcastTxSync_absorbs)
  then show ?thesis
    by (simp add: BroadcastTxBlock_def)
qed

lemma Key_txFromName:
  "Key c (txFromName c)
   = (case kr_Key (keyring c) (txFromName c) of
        KeyFound key \<Rightarrow> Ok (Some key)
      | KeyNotFound \<Rightarrow> Ok None
      | KeyLookupError err \<Rightarrow> Err (''failed to retrieve key from keyring: '' @ err))"
  by (simp add: Key_def)

text \<open>
  Claim C5, as amended. If a granter address is configured, \<^verbatim>\<open>MsgFromAddr\<close> returns
  it. Otherwise the key named \<^verbatim>\<open>txFromName\<close> is looked up in the keyring: its address
  is returned; a failure of the lookup or of the derivation of the address is returned
  as an error; and when there is no key under that name, \<^verbatim>\<open>MsgFromAddr\<close> returns a
  \<^verbatim>\<open>nil\<close> address with a \<^verbatim>\<open>nil\<close> error, the absence being reported as a not-found
  error by \<^verbatim>\<open>broadcastTxSync\<close>, before any network call.
\<close>
theorem MsgFromAddr_cases:
  "(\<not> Empty (txAuthzGranterAddr c) \<longrightarrow> MsgFromAddr c = Ok (txAuthzGranterAddr c))
   \<and> (Empty (txAuthzGranterAddr c) \<and> kr_Key (keyring c) (txFromName c) = KeyFound key
        \<and> GetAddress key = Ok addr \<longrightarrow>
      MsgFromAddr c = Ok addr)
   \<and> (Empty (txAuthzGranterAddr c) \<and> kr_Key (keyring c) (txFromName c) = KeyFound key
        \<and> GetAddress key = Err err \<longrightarrow>
      MsgFromAddr c
        = Err (''failed to get key addr for tx_from_name:failed to get addr from key: '' @ err))
   \<and> (Empty (txAuthzGranterAddr c) \<and> kr_Key (keyring c) (txFromName c) = KeyLookupError err \<longrightarrow>
      MsgFromAddr c
        = Err (''failed to get key addr for tx_from_name:failed to retrieve key: ''
               @ ''failed to retrieve key from keyring: '' @ err))
   \<and> (Empty (txAuthzGranterAddr c) \<and> kr_Key (keyring c) (txFromName c) = KeyNotFound \<longrightarrow>
      MsgFromAddr c = Ok []
      \<and> broadcastTxSync c env msgs s
        = (Err (''not found: key '' @ txFromName c @ '' does not exist''), s))"
  by (simp add: MsgFromAddr_def KeyAddr_def Key_txFromName broadcastTxSync_def newErrNotFound_def
      ErrNotFound_def)

text \<open>Claim C5, witness: a granter, the key \<open>main\<close>, and the absent key \<open>nobody\<close>.\<close>
theorem MsgFromAddr_cases_witness:
  "MsgFromAddr (exampleClient\<lparr>txAuthzGranterAddr := [8]\<rparr>) = Ok [8]
   \<and> MsgFromAddr exampleClient = Ok [7]
   \<and> MsgFromAddr (exampleClient\<lparr>txFromName := ''nobody''\<rparr>) = Ok []
   \<and> broadcastTxSync (exampleClient\<lparr>txFromName := ''nobody''\<rparr>)
       (scriptedEnv [Ok exampleAccepted] []) [DomainMsg ''m''] []
     = (Err ''not found: key nobody does not exist'', [])"
proof -
  have g: "\<not> Empty (txAuthzGranterAddr (exampleClient\<lparr>txAuthzGranterAddr := [8]\<rparr>))"
    by (simp add: Empty_def)
  have e: "Empty (txAuthzGranterAddr exampleClient)"
    "Empty (txAuthzGranterAddr (exampleClient\<lparr>txFromName := ''nobody''\<rparr>))"
    by (simp_all add: Empty_def exampleClient_def)
  have k: "kr_Key (keyring exampleClient) (txFromName exampleClient) = KeyFound exampleKey"
    "GetAddress exampleKey = Ok [7]"
    by (simp_all add: exampleClient_def exampleKeyring_def exampleKey_def)
  have n: "kr_Key (keyring (exampleClient\<lparr>txFromName := ''nobody''\<rparr>))
             (txFromName (exampleClient\<lparr>txFromName := ''nobody''\<rparr>)) = KeyNotFound"
    by (simp add: exampleClient_def exampleKeyring_def)
  show ?thesis
    using MsgFromAddr_cases [of "exampleClient\<lparr>txAuthzGranterAddr := [8]\<rparr>"] g
      MsgFromAddr_cases [of exampleClient exampleKey "[7]"] e(1) k
      MsgFromAddr_cases [of "exampleClient\<lparr>txFromName := ''nobody''\<rparr>" _ _ _
        "scriptedEnv [Ok exampleAccepted] []" "[DomainMsg ''m'']" "[]"] e(2) n
    by simp
qed

text \<open>
  Claim C5, counterexample. No granter is configured and the keyring has no key
  \<open>nobody\<close>: \<^verbatim>\<open>MsgFromAddr\<close> returns the \<^verbatim>\<open>nil\<close> address and no error.
\<close>
theorem MsgFromAddr_absent_key_nil_nil:
  "Empty (txAuthzGranterAddr (exampleClient\<lparr>txFromName := ''nobody''\<rparr>))
   \<and> Key (exampleClient\<lparr>txFromName := ''nobody''\<rparr>) ''nobody'' = Ok None
   \<and> MsgFromAddr (exampleClient\<lparr>txFromName := ''nobody''\<rparr>) = Ok []"
  by (simp add: MsgFromAddr_def KeyAddr_def Key_def Empty_def exampleClient_def exampleKeyring_def)

lemma validateMsgs_Ok:
  "validateMsgs env i msgs s = (Ok u, s') \<Longrightarrow> s' = s @ map EvValidate msgs"
proof (induction msgs arbitrary: i s)
  case Nil
  then show ?case by simp
next
  case (Cons m msgs)
  from Cons.prems have "validateMsgs env (Suc i) msgs (s @ [EvValidate m]) = (Ok u, s')"
    by (simp split: option.splits)
  then have "s' = (s @ [EvValidate m]) @ map EvValidate msgs"
    by (rule Cons.IH)
  then show ?case by simp
qed

lemma prepareTx_world:
  "prepareTx c env key acc msgs s = (r, s1) \<Longrightarrow> \<exists>t. s1 = s @ t"
  using prepareTx_emits [of msgs "\<lambda>ev. True" s c env key acc]
  by (auto simp add: emits_iff)

lemma signTx_same_world: "signTx c env txb key acc s = (r, s1) \<Longrightarrow> s1 = s"
  using signTx_world [of c env txb key acc s] by simp

lemma broadcastTxSync_Ok_plain:
  assumes ok: "broadcastTxSync c env msgs s = (Ok res, s')"
    and plain: "Empty (txAuthzGranterAddr c)"
  shows "\<exists>key addr acc t txb buf.
           Key c (txFromName c) = Ok (Some key) \<and> GetAddress key = Ok addr
           \<and> AccountRPC env (s @ map EvValidate msgs) addr = Ok (Some acc)
           \<and> tx_Msgs txb = msgs
           \<and> TxEncoder env txb = Ok buf
           \<and> s' = s @ map EvValidate msgs @ [EvAccount addr] @ t @ [EvEncode txb, EvBroadcast buf]"
proof -
  from ok plain obtain key addr acc txb0 txb buf s1 s2 where
    key: "Key c (txFromName c) = Ok (Some key)" and addr: "GetAddress key = Ok addr"
    and v: "validateMsgs env 0 msgs s = (Ok (), s1)"
    and a: "AccountQuery env addr s1 = (Ok (Some acc), s1 @ [EvAccount addr])"
    and p: "prepareTx c env key acc msgs (s1 @ [EvAccount addr]) = (Ok txb0, s2)"
    and sg: "signTx c env txb0 key acc s2 = (Ok txb, s2)"
    and e: "TxEncoder env txb = Ok buf"
    and s': "s' = s2 @ [EvEncode txb, EvBroadcast buf]"
    unfolding broadcastTxSync_def Let_def
    apply (clarsimp simp add: andThen_Ok split: option.splits)
    apply (frule signTx_same_world)
    apply (auto simp add: AccountQuery_def encodeTx_def http_BroadcastTxSync_def)
    done
  have s1: "s1 = s @ map EvValidate msgs"
    using v by (rule validateMsgs_Ok)
  obtain t where t: "s2 = (s1 @ [EvAccount addr]) @ t"
    using prepareTx_world [OF p] by blast
  have m: "tx_Msgs txb = msgs"
    using prepareTx_msgs [OF p] signTx_msgs [OF sg] by simp
  have acc: "AccountRPC env (s @ map EvValidate msgs) addr = Ok (Some acc)"
    using a by (simp add: AccountQuery_def s1)
  show ?thesis
    using key addr acc m e s' t s1 by auto
qed

text \<open>
  Claim C7. With a granter address configured, and \<open>addr\<close> the address of the signing
  key, an attempt is the attempt to submit, without granter, the single message
  \<^verbatim>\<open>MsgExec\<close> that wraps the original list and whose signer is \<open>addr\<close>. Every message
  it validates is that message, every transaction it encodes carries exactly that
  message, and every account it looks up is \<open>addr\<close>, whatever the granter address is.
  An attempt that succeeds has validated that message, then looked up the account of
  \<open>addr\<close>, and has broadcast the encoding of a transaction that carries that message.
\<close>
theorem broadcastTxSync_authz_wraps:
  assumes "\<not> Empty (txAuthzGranterAddr c)"
    and "Key c (txFromName c) = Ok (Some key)"
    and "GetAddress key = Ok addr"
  shows "broadcastTxSync c env msgs s
           = broadcastTxSync (c\<lparr>txAuthzGranterAddr := []\<rparr>) env [NewMsgExec addr msgs] s
         \<and> MsgExec_GetSigners (NewMsgExec addr msgs) = [addr]
         \<and> emits (attemptEvent addr [NewMsgExec addr msgs]) s (snd (broadcastTxSync c env msgs s))
         \<and> (\<forall>res s'. broadcastTxSync c env msgs s = (Ok res, s') \<longrightarrow>
               (\<exists>acc t txb buf.
                  AccountRPC env (s @ [EvValidate (NewMsgExec addr msgs)]) addr = Ok (Some acc)
                  \<and> tx_Msgs txb = [NewMsgExec addr msgs]
                  \<and> TxEncoder env txb = Ok buf
                  \<and> s' = s @ [EvValidate (NewMsgExec addr msgs), EvAccount addr] @ t
                          @ [EvEncode txb, EvBroadcast buf]))"
proof -
  let ?c = "c\<lparr>txAuthzGranterAddr := []\<rparr>"
  let ?exec = "NewMsgExec addr msgs"
  have eq: "broadcastTxSync c env msgs s = broadcastTxSync ?c env [?exec] s"
    using assms(2) assms(3) assms(1) by (rule broadcastTxSync_authz)
  have signer: "MsgExec_GetSigners ?exec = [addr]"
    by (simp add: NewMsgExec_def)
  have ev: "emits (attemptEvent addr [?exec]) s (snd (broadcastTxSync c env msgs s))"
    using broadcastTxSync_emits [OF assms(2) assms(3), of msgs s env] assms(1) by simp
  have succ: "\<exists>acc t txb buf.
                  AccountRPC env (s @ [EvValidate ?exec]) addr = Ok (Some acc)
                  \<and> tx_Msgs txb = [?exec]
                  \<and> TxEncoder env txb = Ok buf
                  \<and> s' = s @ [EvValidate ?exec, EvAccount addr] @ t @ [EvEncode txb, EvBroadcast buf]"
    if ok: "broadcastTxSync c env msgs s = (Ok res, s')" for res s'
  proof -
    have ok': "broadcastTxSync ?c env [?exec] s = (Ok res, s')"
      using ok eq by simp
    have plain: "Empty (txAuthzGranterAddr ?c)"
      by (simp add: Empty_def)
    obtain key' addr' acc t txb buf where
      k: "Key ?c (txFromName ?c) = Ok (Some key')" "GetAddress key' = Ok addr'"
      and r: "AccountRPC env (s @ map EvValidate [?exec]) addr' = Ok (Some acc)"
        "tx_Msgs txb = [?exec]" "TxEncoder env txb = Ok buf"
        "s' = s @ map EvValidate [?exec] @ [EvAccount addr'] @ t @ [EvEncode txb, EvBroadcast buf]"
      using broadcastTxSync_Ok_plain [OF ok' plain] by blast
    have "key' = key" using k(1) assms(2) by simp
    then have "addr' = addr" using k(2) assms(3) by simp
    with r show ?thesis by auto
  qed
  from eq signer ev succ show ?thesis by blast
qed

text \<open>
  Claim C7, witness: the granter is \<open>[8]\<close>, the key's address \<open>[7]\<close>; the account
  looked up is \<open>[7]\<close>.
\<close>
theorem broadcastTxSync_authz_wraps_witness:
  "broadcastTxSync (exampleClient\<lparr>txAuthzGranterAddr := [8]\<rparr>)
     (scriptedEnv [Ok exampleAccepted] []) [DomainMsg ''m''] []
   = (Ok exampleAccepted,
      [EvValidate (MsgExec [7] [DomainMsg ''m'']), EvAccount [7],
       EvEncode (exampleTx [MsgExec [7] [DomainMsg ''m'']]), EvBroadcast [1]])
   \<and> MsgExec_GetSigners (MsgExec [7] [DomainMsg ''m'']) = [[7]]"
proof -
  let ?c = "exampleClient\<lparr>txAuthzGranterAddr := [8]\<rparr>"
  have h1: "\<not> Empty (txAuthzGranterAddr ?c)"
    by (simp add: Empty_def)
  have h2: "Key ?c (txFromName ?c) = Ok (Some exampleKey)"
    by (simp add: Key_def exampleClient_def exampleKeyring_def)
  have h3: "GetAddress exampleKey = Ok [7]"
    by (simp add: exampleKey_def)
  have c: "?c\<lparr>txAuthzGranterAddr := []\<rparr> = exampleClient"
    by (simp add: exampleClient_def)
  show ?thesis
    using broadcastTxSync_authz_wraps [OF h1 h2 h3, of "scriptedEnv [Ok exampleAccepted] []"
        "[DomainMsg ''m'']" "[]"]
    by (simp add: c example_broadcastTxSync exampleAttempt_def NewMsgExec_def)
qed

section \<open>Gas simulation\<close>

text \<open>
  What \<^verbatim>\<open>prepareTx\<close> does with the simulation (claim C10 apart from the floating-point
  product): the gas limit of the prepared transaction is the adjusted simulated gas, the
  fee is recomputed against it when gas prices are configured, and an error of the
  simulation is the error of \<^verbatim>\<open>gasSimulateTx\<close>.
\<close>

lemma setGasPriceFees_Ok:
  "setGasPriceFees c g txb = Ok txb' \<Longrightarrow>
     tx_GasLimit txb' = tx_GasLimit txb
     \<and> (if IsZero (txGasPrices c) then tx_FeeAmount txb' = tx_FeeAmount txb
         else calculateFees (txGasPrices c) g = Ok (tx_FeeAmount txb'))"
  by (auto simp add: setGasPriceFees_def split: if_splits result.splits)

lemma prepareTx_simulated:
  assumes "txSimulateAndExecute c" and "prepareTx c env key acc msgs s = (Ok txb, s')"
  shows "\<exists>txb0 gasLimit.
           gasSimulateTx c env txb0 s = (Ok gasLimit, s')
           \<and> tx_GasLimit txb = gasLimit
           \<and> (if IsZero (txGasPrices c) then tx_FeeAmount txb = txFees c
               else calculateFees (txGasPrices c) gasLimit = Ok (tx_FeeAmount txb))"
  using assms unfolding prepareTx_def Let_def
  by (fastforce simp add: andThen_Ok NewTxBuilder_def dest!: setGasPriceFees_Ok split: if_splits)

lemma gasSimulateTx_failure:
  assumes "TxEncoder env txb = Ok buf" and "SimulateRPC env (s @ [EvEncode txb]) buf = Err e"
  shows "gasSimulateTx c env txb s
         = (Err (''failed to simulate tx: failed to query simulate: '' @ e),
            s @ [EvEncode txb, EvSimulate buf])"
  using assms by (simp add: gasSimulateTx_def encodeTx_def Simulate_def)

lemma gasSimulateTx_success:
  assumes "TxEncoder env txb = Ok buf"
    and "SimulateRPC env (s @ [EvEncode txb]) buf = Ok (Some gasUsed)"
  shows "gasSimulateTx c env txb s
         = (Ok (txGasAdjustment c gasUsed), s @ [EvEncode txb, EvSimulate buf])"
  using assms by (simp add: gasSimulateTx_def encodeTx_def Simulate_def)

end
